theory Spec2Isabelle
  imports Complex_Main "HOL-Library.Sublist"
begin

section \<open>github2notion: data model\<close>

text \<open>
  JavaScript strings are modelled as \<open>string\<close>; one list element stands for one
  UTF-16 code unit, which is what \<open>substring\<close>, \<open>length\<close> and \<open>===\<close> work on.
  A value that may be \<open>undefined\<close>, \<open>null\<close> or defined (\<open>body?: string | null\<close>,
  \<open>description?: string | null\<close>) is a \<open>js_optional\<close>; a property that is only
  optional (\<open>type?\<close>, \<open>priority?\<close>, \<open>name?\<close>) is an \<open>option\<close>, \<open>None\<close> for
  \<open>undefined\<close>.
\<close>

datatype 'a js_optional = Undefined | Null | Defined 'a

text \<open>Truthiness of a string (\<open>!!s\<close>, \<open>if (s)\<close>): only the empty string is falsy.\<close>

definition truthy_string :: "string \<Rightarrow> bool" where
  "truthy_string s = (s \<noteq> [])"

text \<open>Truthiness of \<open>string | undefined\<close>, as returned by \<open>Map.get\<close> and \<open>process.env\<close>.\<close>

fun truthy_opt :: "string option \<Rightarrow> bool" where
  "truthy_opt None = False"
| "truthy_opt (Some s) = truthy_string s"

text \<open>Truthiness of \<open>string | null | undefined\<close>.\<close>

fun truthy :: "string js_optional \<Rightarrow> bool" where
  "truthy Undefined = False"
| "truthy Null = False"
| "truthy (Defined s) = truthy_string s"

text \<open>
  A GitHub label is either a bare string or an object whose \<open>name\<close> is optional
  (\<open>components["schemas"]["issue"]["labels"]\<close>); of the object only \<open>name\<close> is read.
\<close>

record GitHubLabelObject =
  name :: "string option"
  color :: "string option"

datatype GitHubLabel = LabelString string | LabelObject GitHubLabelObject

text \<open>The fields of the raw issue record that \<open>extractIssuePropsFrom\<close> reads.\<close>

record GitHubIssue =
  number :: int
  title :: string
  state :: string
  html_url :: string
  created_at :: string
  labels :: "GitHubLabel list"
  body :: "string js_optional"

text \<open>The literal unions \<open>"Bug" | "Tech Debt"\<close> and \<open>"Low Priority" | "High Priority"\<close>.\<close>

datatype IssueType = Bug | Tech_Debt

datatype IssuePriority = Low_Priority | High_Priority

fun type_literal :: "IssueType \<Rightarrow> string" where
  "type_literal Bug = ''Bug''"
| "type_literal Tech_Debt = ''Tech Debt''"

fun priority_literal :: "IssuePriority \<Rightarrow> string" where
  "priority_literal Low_Priority = ''Low Priority''"
| "priority_literal High_Priority = ''High Priority''"

record ExtractedGitHubIssue =
  id_issue :: int
  title :: string
  state :: string
  url :: string
  created_at :: string
  type_issue :: "IssueType option"
  priority :: "IssuePriority option"
  description :: "string js_optional"

section \<open>Issue extractor (schema.ts)\<close>

text \<open>\<open>isLabelObject = (value) => !isString(value)\<close>, with lodash's \<open>isString\<close>.\<close>

fun isLabelObject :: "GitHubLabel \<Rightarrow> bool" where
  "isLabelObject (LabelString s) = False"
| "isLabelObject (LabelObject l) = True"

text \<open>\<open>label.name === id\<close> on an element that passed \<open>isLabelObject\<close>.\<close>

fun label_name_is :: "string \<Rightarrow> GitHubLabel \<Rightarrow> bool" where
  "label_name_is i (LabelString s) = False"
| "label_name_is i (LabelObject l) = (name l = Some i)"

text \<open>\<open>has = (labels, id) => labels.filter(isLabelObject).some(label => label.name === id)\<close>\<close>

definition has :: "GitHubLabel list \<Rightarrow> string \<Rightarrow> bool" where
  "has ls i = list_ex (label_name_is i) (filter isLabelObject ls)"

definition getPriorityFrom :: "GitHubLabel list \<Rightarrow> IssuePriority option" where
  "getPriorityFrom ls =
     (if has ls ''Low Priority'' then Some Low_Priority
      else if has ls ''High Priority'' then Some High_Priority
      else None)"

definition getTypeFrom :: "GitHubLabel list \<Rightarrow> IssueType option" where
  "getTypeFrom ls =
     (if has ls ''Bug'' then Some Bug
      else if has ls ''Tech Debt'' then Some Tech_Debt
      else None)"

text \<open>\<open>s.substring(0, 1999)\<close>: the code units at positions 0 to 1998.\<close>

definition substring_0_1999 :: "string \<Rightarrow> string" where
  "substring_0_1999 s = take 1999 s"

text \<open>\<open>issue.body?.substring(0, 1999)\<close>: \<open>undefined\<close> when the body is \<open>null\<close> or \<open>undefined\<close>.\<close>

fun body_description :: "string js_optional \<Rightarrow> string js_optional" where
  "body_description Undefined = Undefined"
| "body_description Null = Undefined"
| "body_description (Defined s) = Defined (substring_0_1999 s)"

definition extractIssuePropsFrom :: "GitHubIssue \<Rightarrow> ExtractedGitHubIssue" where
  "extractIssuePropsFrom issue =
     \<lparr> id_issue = number issue,
       title = GitHubIssue.title issue,
       state = GitHubIssue.state issue,
       url = html_url issue,
       created_at = GitHubIssue.created_at issue,
       type_issue = getTypeFrom (labels issue),
       priority = getPriorityFrom (labels issue),
       description = body_description (body issue) \<rparr>"

section \<open>Row property mapper (schema.ts)\<close>

text \<open>A rich-text element \<open>{ type: "text", text: { content: c } }\<close>.\<close>

datatype text_item = Text_item string

text \<open>
  The property values the mapper builds: \<open>{ title: [...] }\<close>, \<open>{ number: n }\<close>,
  \<open>{ select: { name: s } }\<close>, \<open>{ url: u }\<close>, \<open>{ date: { start: d } }\<close> and
  \<open>{ rich_text: [...] }\<close>.
\<close>

datatype property_value =
    Title_value "text_item list"
  | Number_value int
  | Select_value string
  | Url_value string
  | Date_value string
  | Rich_text_value "text_item list"

text \<open>An object literal is the list of its entries in the order they are written.\<close>

type_synonym page_properties = "(string \<times> property_value) list"

definition ISSUE_COLUMN :: string where
  "ISSUE_COLUMN = ''Issue Number''"

text \<open>\<open>...(!!issue.priority && { Priority: ... })\<close>: a falsy operand spreads nothing.\<close>

fun priority_entries :: "IssuePriority option \<Rightarrow> page_properties" where
  "priority_entries None = []"
| "priority_entries (Some p) =
     (if truthy_string (priority_literal p)
      then [(''Priority'', Select_value (priority_literal p))] else [])"

fun type_entries :: "IssueType option \<Rightarrow> page_properties" where
  "type_entries None = []"
| "type_entries (Some t) =
     (if truthy_string (type_literal t)
      then [(''Type'', Select_value (type_literal t))] else [])"

fun description_entries :: "string js_optional \<Rightarrow> page_properties" where
  "description_entries Undefined = []"
| "description_entries Null = []"
| "description_entries (Defined d) =
     (if truthy_string d
      then [(''Description'', Rich_text_value [Text_item d])] else [])"

definition notionPagePropertiesFrom :: "ExtractedGitHubIssue \<Rightarrow> page_properties" where
  "notionPagePropertiesFrom issue =
     [ (''Name'', Title_value [Text_item (ExtractedGitHubIssue.title issue)]),
       (ISSUE_COLUMN, Number_value (id_issue issue)),
       (''State'', Select_value (ExtractedGitHubIssue.state issue)),
       (''Issue URL'', Url_value (url issue)),
       (''Created At'', Date_value (ExtractedGitHubIssue.created_at issue)) ]
     @ priority_entries (priority issue)
     @ type_entries (type_issue issue)
     @ description_entries (description issue)"

section \<open>Reconciliation engine (main.ts)\<close>

text \<open>\<open>ExtractedGitHubIssue & { pageId: string }\<close>, built by \<open>{ ...issue, pageId }\<close>.\<close>

record IssueWithPageId = ExtractedGitHubIssue +
  pageId :: string

definition with_pageId :: "ExtractedGitHubIssue \<Rightarrow> string \<Rightarrow> IssueWithPageId" where
  "with_pageId issue p = ExtractedGitHubIssue.extend issue (IssueWithPageId.fields p)"

record NotionOperations =
  issuesToCreate :: "ExtractedGitHubIssue list"
  issuesToUpdate :: "IssueWithPageId list"

text \<open>
  The body of \<open>for (const issue of issues)\<close>: \<open>Map.get\<close> gives the page id or
  \<open>undefined\<close>, \<open>if (pageId)\<close> tests its truthiness, \<open>push\<close> appends at the end.
\<close>

fun getNotionOperations_loop ::
  "ExtractedGitHubIssue list \<Rightarrow> (int \<rightharpoonup> string) \<Rightarrow> NotionOperations \<Rightarrow> NotionOperations" where
  "getNotionOperations_loop [] m ops = ops"
| "getNotionOperations_loop (issue # rest) m ops =
     (case m (id_issue issue) of
        None \<Rightarrow>
          getNotionOperations_loop rest m
            (ops\<lparr>issuesToCreate := issuesToCreate ops @ [issue]\<rparr>)
      | Some p \<Rightarrow>
          if truthy_string p
          then getNotionOperations_loop rest m
                 (ops\<lparr>issuesToUpdate := issuesToUpdate ops @ [with_pageId issue p]\<rparr>)
          else getNotionOperations_loop rest m
                 (ops\<lparr>issuesToCreate := issuesToCreate ops @ [issue]\<rparr>))"

definition getNotionOperations ::
  "ExtractedGitHubIssue list \<Rightarrow> (int \<rightharpoonup> string) \<Rightarrow> NotionOperations" where
  "getNotionOperations issues m =
     getNotionOperations_loop issues m \<lparr>issuesToCreate = [], issuesToUpdate = []\<rparr>"

section \<open>Batch executor (main.ts)\<close>

definition OPERATION_BATCH_SIZE :: nat where
  "OPERATION_BATCH_SIZE = 10"

text \<open>
  Modelled from the spec: lodash's \<open>_.chunk\<close> is a library function outside the
  sources. It splits the list into consecutive groups of at most \<open>size\<close> items,
  preserving order: every group but the last takes \<open>size\<close> items, the last takes
  what remains; an empty list or a size below 1 gives no group.
\<close>

function chunk :: "'a list \<Rightarrow> nat \<Rightarrow> 'a list list" where
  "chunk array sz =
     (if sz < 1 \<or> array = [] then []
      else take sz array # chunk (drop sz array) sz)"
  by pat_completeness auto
termination
  by (relation "measure (\<lambda>(array, sz). length array)") auto

declare chunk.simps [simp del]

text \<open>A call of the Notion client: \<open>notion.pages.create({ parent: { database_id }, properties })\<close>.\<close>

datatype notion_call = Pages_create string page_properties

text \<open>The console line \<open>Completed batch size: n\<close>.\<close>

datatype console_line = Completed_batch_size nat

record notion_io =
  calls :: "notion_call list"
  console :: "console_line list"

datatype outcome = Resolved | Rejected

text \<open>
  The loop of \<open>createPagesFrom\<close> over the chunks. \<open>createBatch.map\<close> issues every call
  of the batch in order; \<open>await Promise.all\<close> rejects when one of them does, and then
  the function stops without logging: the remaining batches are never issued. The
  parameter \<open>client\<close> tells whether a call resolves.
\<close>

fun createPagesFrom_loop ::
  "(notion_call \<Rightarrow> bool) \<Rightarrow> string \<Rightarrow> ExtractedGitHubIssue list list \<Rightarrow> notion_io
     \<Rightarrow> outcome \<times> notion_io" where
  "createPagesFrom_loop client databaseId [] io = (Resolved, io)"
| "createPagesFrom_loop client databaseId (createBatch # rest) io =
     (let batch_calls =
            map (\<lambda>issue. Pages_create databaseId (notionPagePropertiesFrom issue)) createBatch;
          io1 = io\<lparr>calls := calls io @ batch_calls\<rparr>
      in if list_all client batch_calls
         then createPagesFrom_loop client databaseId rest
                (io1\<lparr>console := console io1 @ [Completed_batch_size (length createBatch)]\<rparr>)
         else (Rejected, io1))"

definition createPagesFrom ::
  "(notion_call \<Rightarrow> bool) \<Rightarrow> string \<Rightarrow> ExtractedGitHubIssue list \<Rightarrow> notion_io
     \<Rightarrow> outcome \<times> notion_io" where
  "createPagesFrom client databaseId issues io =
     createPagesFrom_loop client databaseId (chunk issues OPERATION_BATCH_SIZE) io"

section \<open>Startup configuration checks (main.ts)\<close>

datatype error = Error string

text \<open>
  \<open>process.env\<close> after \<open>dotenv.config()\<close>, as a map from variable names to strings.
  The five \<open>if (!process.env.X) throw new Error(...)\<close> run in this order; the first
  falsy value raises.
\<close>

definition startup_checks :: "(string \<rightharpoonup> string) \<Rightarrow> error + unit" where
  "startup_checks env =
     (if \<not> truthy_opt (env ''NOTION_DATABASE_ID'') then Inl (Error ''Notion database must be defined'')
      else if \<not> truthy_opt (env ''GITHUB_REPO_OWNER'') then Inl (Error ''Github repo owner must be defined'')
      else if \<not> truthy_opt (env ''GITHUB_REPO_NAME'') then Inl (Error ''Github repo name must be defined'')
      else if \<not> truthy_opt (env ''GITHUB_KEY'') then Inl (Error ''Github api key must be defined'')
      else if \<not> truthy_opt (env ''NOTION_KEY'') then Inl (Error ''Notion api key must be defined'')
      else Inr ())"

section \<open>Example inputs\<close>

text \<open>
  Concrete inputs on which the theorems below are instantiated. Four extracted issues:
  the first without tags, the second closed and classified as a bug, the third with a
  type, a priority and a description, the fourth with the empty string as description;
  and the mapping that knows the first issue as row \<open>rowA\<close>.
\<close>

definition issue_1 :: ExtractedGitHubIssue where
  "issue_1 = \<lparr> id_issue = 1, title = ''first'', state = ''open'',
       url = ''https://github.com/o/r/issues/1'', created_at = ''2023-01-01T10:00:00Z'',
       type_issue = None, priority = None, description = Undefined \<rparr>"

definition issue_2 :: ExtractedGitHubIssue where
  "issue_2 = \<lparr> id_issue = 2, title = ''second'', state = ''closed'',
       url = ''https://github.com/o/r/issues/2'', created_at = ''2023-01-02T10:00:00Z'',
       type_issue = Some Bug, priority = None, description = Undefined \<rparr>"

definition issue_3 :: ExtractedGitHubIssue where
  "issue_3 = \<lparr> id_issue = 3, title = ''third'', state = ''open'',
       url = ''https://github.com/o/r/issues/3'', created_at = ''2023-01-03T10:00:00Z'',
       type_issue = Some Tech_Debt, priority = Some Low_Priority,
       description = Defined ''text'' \<rparr>"

definition issue_4 :: ExtractedGitHubIssue where
  "issue_4 = \<lparr> id_issue = 4, title = ''fourth'', state = ''open'',
       url = ''https://github.com/o/r/issues/4'', created_at = ''2023-01-04T10:00:00Z'',
       type_issue = None, priority = None, description = Defined [] \<rparr>"

text \<open>
  Raw issue records. The first carries label objects of both types and both priorities,
  the lower-precedence ones first; the second carries an unrelated label object. Of the
  other four, the body of the first has 2001 code units, the second has a short body,
  the body of the third is \<open>null\<close>, that of the fourth the empty string.
\<close>

definition raw_issue_tagged :: GitHubIssue where
  "raw_issue_tagged = \<lparr> number = 9, title = ''tagged'', state = ''open'',
       html_url = ''https://github.com/o/r/issues/9'', created_at = ''2023-01-09T10:00:00Z'',
       labels = [LabelObject \<lparr>name = Some ''Tech Debt'', color = None\<rparr>,
                 LabelObject \<lparr>name = Some ''High Priority'', color = None\<rparr>,
                 LabelObject \<lparr>name = Some ''Bug'', color = None\<rparr>,
                 LabelObject \<lparr>name = Some ''Low Priority'', color = None\<rparr>],
       body = Undefined \<rparr>"

definition raw_issue_untagged :: GitHubIssue where
  "raw_issue_untagged = \<lparr> number = 10, title = ''untagged'', state = ''open'',
       html_url = ''https://github.com/o/r/issues/10'', created_at = ''2023-01-10T10:00:00Z'',
       labels = [LabelObject \<lparr>name = Some ''question'', color = None\<rparr>],
       body = Undefined \<rparr>"

definition raw_issue_long :: GitHubIssue where
  "raw_issue_long = \<lparr> number = 5, title = ''long'', state = ''open'',
       html_url = ''https://github.com/o/r/issues/5'', created_at = ''2023-01-05T10:00:00Z'',
       labels = [], body = Defined (replicate 2001 (CHR ''a'')) \<rparr>"

definition raw_issue_short :: GitHubIssue where
  "raw_issue_short = \<lparr> number = 6, title = ''short'', state = ''open'',
       html_url = ''https://github.com/o/r/issues/6'', created_at = ''2023-01-06T10:00:00Z'',
       labels = [], body = Defined ''text'' \<rparr>"

definition raw_issue_null :: GitHubIssue where
  "raw_issue_null = \<lparr> number = 7, title = ''no body'', state = ''closed'',
       html_url = ''https://github.com/o/r/issues/7'', created_at = ''2023-01-07T10:00:00Z'',
       labels = [], body = Null \<rparr>"

definition raw_issue_empty :: GitHubIssue where
  "raw_issue_empty = \<lparr> number = 8, title = ''empty body'', state = ''open'',
       html_url = ''https://github.com/o/r/issues/8'', created_at = ''2023-01-08T10:00:00Z'',
       labels = [LabelString ''Bug''], body = Defined [] \<rparr>"

definition mapping_1 :: "int \<rightharpoonup> string" where
  "mapping_1 = [1 \<mapsto> ''rowA'']"

text \<open>
  Three environments: a complete one, one without \<open>GITHUB_KEY\<close>, and one whose
  \<open>NOTION_DATABASE_ID\<close> is the empty string and whose \<open>NOTION_KEY\<close> is missing.
\<close>

definition env_complete :: "string \<rightharpoonup> string" where
  "env_complete =
     [''NOTION_DATABASE_ID'' \<mapsto> ''db'', ''GITHUB_REPO_OWNER'' \<mapsto> ''o'',
      ''GITHUB_REPO_NAME'' \<mapsto> ''r'', ''GITHUB_KEY'' \<mapsto> ''ghp'', ''NOTION_KEY'' \<mapsto> ''secret'']"

definition env_no_github_key :: "string \<rightharpoonup> string" where
  "env_no_github_key =
     [''NOTION_DATABASE_ID'' \<mapsto> ''db'', ''GITHUB_REPO_OWNER'' \<mapsto> ''o'',
      ''GITHUB_REPO_NAME'' \<mapsto> ''r'', ''NOTION_KEY'' \<mapsto> ''secret'']"

definition env_empty_database_id :: "string \<rightharpoonup> string" where
  "env_empty_database_id =
     [''NOTION_DATABASE_ID'' \<mapsto> [], ''GITHUB_REPO_OWNER'' \<mapsto> ''o'',
      ''GITHUB_REPO_NAME'' \<mapsto> ''r'', ''GITHUB_KEY'' \<mapsto> ''ghp'']"

text \<open>A client on which every call resolves, and twelve issues numbered 1 to 12.\<close>

definition client_ok :: "notion_call \<Rightarrow> bool" where
  "client_ok c = True"

definition twelve_issues :: "ExtractedGitHubIssue list" where
  "twelve_issues = map (\<lambda>n. issue_1\<lparr>id_issue := n\<rparr>) [1..12]"

definition io_start :: notion_io where
  "io_start = \<lparr>calls = [], console = []\<rparr>"

section \<open>Extractor and mapper: facts and claims\<close>

lemma has_iff:
  "has ls i \<longleftrightarrow> (\<exists>l. LabelObject l \<in> set ls \<and> name l = Some i)"
proof
  assume "has ls i"
  then obtain x where x: "x \<in> set ls" "isLabelObject x" "label_name_is i x"
    unfolding has_def list_ex_iff by auto
  show "\<exists>l. LabelObject l \<in> set ls \<and> name l = Some i"
  proof (cases x)
    case (LabelString s)
    with x show ?thesis by simp
  next
    case (LabelObject l)
    with x show ?thesis by auto
  qed
next
  assume "\<exists>l. LabelObject l \<in> set ls \<and> name l = Some i"
  then obtain l where "LabelObject l \<in> set ls" "name l = Some i" by blast
  then have "\<exists>x \<in> set (filter isLabelObject ls). label_name_is i x"
    by (intro bexI[of _ "LabelObject l"]) simp_all
  then show "has ls i"
    unfolding has_def list_ex_iff .
qed

lemma has_set_cong: "set ls' = set ls \<Longrightarrow> has ls' i = has ls i"
  by (simp add: has_iff)

lemma getTypeFrom_set_cong: "set ls' = set ls \<Longrightarrow> getTypeFrom ls' = getTypeFrom ls"
  by (simp add: getTypeFrom_def has_set_cong[of ls' ls])

lemma getPriorityFrom_set_cong: "set ls' = set ls \<Longrightarrow> getPriorityFrom ls' = getPriorityFrom ls"
  by (simp add: getPriorityFrom_def has_set_cong[of ls' ls])

lemma getTypeFrom_Bug:
  "LabelObject l \<in> set ls \<Longrightarrow> name l = Some ''Bug'' \<Longrightarrow> getTypeFrom ls = Some Bug"
  unfolding getTypeFrom_def using has_iff[of ls "''Bug''"] by auto

lemma getTypeFrom_None:
  "\<forall>l. LabelObject l \<in> set ls \<longrightarrow> name l \<noteq> Some ''Bug'' \<and> name l \<noteq> Some ''Tech Debt''
   \<Longrightarrow> getTypeFrom ls = None"
  unfolding getTypeFrom_def using has_iff[of ls "''Bug''"] has_iff[of ls "''Tech Debt''"] by auto

lemma getPriorityFrom_Low:
  "LabelObject l \<in> set ls \<Longrightarrow> name l = Some ''Low Priority'' \<Longrightarrow> getPriorityFrom ls = Some Low_Priority"
  unfolding getPriorityFrom_def using has_iff[of ls "''Low Priority''"] by auto

lemma getPriorityFrom_None:
  "\<forall>l. LabelObject l \<in> set ls \<longrightarrow> name l \<noteq> Some ''Low Priority'' \<and> name l \<noteq> Some ''High Priority''
   \<Longrightarrow> getPriorityFrom ls = None"
  unfolding getPriorityFrom_def using has_iff[of ls "''Low Priority''"] has_iff[of ls "''High Priority''"] by auto

lemma has_all_strings: "has (map LabelString ss) i = False"
  by (induction ss) (simp_all add: has_def)

lemma truthy_type_literal: "truthy_string (type_literal t)"
  by (cases t) (simp_all add: truthy_string_def)

lemma truthy_priority_literal: "truthy_string (priority_literal p)"
  by (cases p) (simp_all add: truthy_string_def)

lemma fst_priority_entries:
  "fst ` set (priority_entries p) = (case p of None \<Rightarrow> {} | Some q \<Rightarrow> {''Priority''})"
proof (cases p)
  case None
  then show ?thesis by simp
next
  case (Some q)
  then show ?thesis by (cases q) (simp_all add: truthy_string_def)
qed

lemma fst_type_entries:
  "fst ` set (type_entries t) = (case t of None \<Rightarrow> {} | Some q \<Rightarrow> {''Type''})"
proof (cases t)
  case None
  then show ?thesis by simp
next
  case (Some q)
  then show ?thesis by (cases q) (simp_all add: truthy_string_def)
qed

lemma fst_description_entries:
  "fst ` set (description_entries d) =
     (case d of Defined s \<Rightarrow> if s = [] then {} else {''Description''} | _ \<Rightarrow> {})"
  by (cases d) (simp_all add: truthy_string_def)

lemma map_of_priority_entries:
  "map_of (priority_entries p) k =
     (case p of None \<Rightarrow> None
      | Some q \<Rightarrow> if k = ''Priority'' then Some (Select_value (priority_literal q)) else None)"
proof (cases p)
  case None
  then show ?thesis by simp
next
  case (Some q)
  then show ?thesis by (cases q) (simp_all add: truthy_string_def)
qed

lemma map_of_type_entries:
  "map_of (type_entries t) k =
     (case t of None \<Rightarrow> None
      | Some q \<Rightarrow> if k = ''Type'' then Some (Select_value (type_literal q)) else None)"
proof (cases t)
  case None
  then show ?thesis by simp
next
  case (Some q)
  then show ?thesis by (cases q) (simp_all add: truthy_string_def)
qed

lemma map_of_description_entries:
  "map_of (description_entries d) k =
     (case d of
        Defined s \<Rightarrow>
          if s \<noteq> [] \<and> k = ''Description'' then Some (Rich_text_value [Text_item s]) else None
      | _ \<Rightarrow> None)"
  by (cases d) (simp_all add: truthy_string_def)

lemma map_of_optional_entries:
  "map_of (priority_entries p @ type_entries t @ description_entries d) k =
     (case map_of (priority_entries p) k of
        Some v \<Rightarrow> Some v
      | None \<Rightarrow> (case map_of (type_entries t) k of
                   Some v \<Rightarrow> Some v
                 | None \<Rightarrow> map_of (description_entries d) k))"
  by (simp add: map_add_def split: option.splits)

lemma props_Name:
  "map_of (notionPagePropertiesFrom i) ''Name'' = Some (Title_value [Text_item (ExtractedGitHubIssue.title i)])"
  by (simp add: notionPagePropertiesFrom_def)

lemma props_Issue_Number:
  "map_of (notionPagePropertiesFrom i) ''Issue Number'' = Some (Number_value (id_issue i))"
  by (simp add: notionPagePropertiesFrom_def ISSUE_COLUMN_def)

lemma props_State:
  "map_of (notionPagePropertiesFrom i) ''State'' = Some (Select_value (ExtractedGitHubIssue.state i))"
  by (simp add: notionPagePropertiesFrom_def ISSUE_COLUMN_def)

lemma props_Issue_URL:
  "map_of (notionPagePropertiesFrom i) ''Issue URL'' = Some (Url_value (url i))"
  by (simp add: notionPagePropertiesFrom_def ISSUE_COLUMN_def)

lemma props_Created_At:
  "map_of (notionPagePropertiesFrom i) ''Created At'' = Some (Date_value (ExtractedGitHubIssue.created_at i))"
  by (simp add: notionPagePropertiesFrom_def ISSUE_COLUMN_def)

lemma props_Priority:
  "map_of (notionPagePropertiesFrom i) ''Priority'' =
     (case priority i of None \<Rightarrow> None | Some q \<Rightarrow> Some (Select_value (priority_literal q)))"
  unfolding notionPagePropertiesFrom_def ISSUE_COLUMN_def
  by (simp add: map_of_optional_entries map_of_priority_entries map_of_type_entries
        map_of_description_entries truthy_type_literal truthy_priority_literal
        del: map_of_append split: option.splits js_optional.splits)

lemma props_Type:
  "map_of (notionPagePropertiesFrom i) ''Type'' =
     (case type_issue i of None \<Rightarrow> None | Some q \<Rightarrow> Some (Select_value (type_literal q)))"
  unfolding notionPagePropertiesFrom_def ISSUE_COLUMN_def
  by (simp add: map_of_optional_entries map_of_priority_entries map_of_type_entries
        map_of_description_entries truthy_type_literal truthy_priority_literal
        del: map_of_append split: option.splits js_optional.splits)

lemma props_Description:
  "map_of (notionPagePropertiesFrom i) ''Description'' =
     (case description i of
        Defined s \<Rightarrow> if s = [] then None else Some (Rich_text_value [Text_item s])
      | _ \<Rightarrow> None)"
  unfolding notionPagePropertiesFrom_def ISSUE_COLUMN_def
  by (simp add: map_of_optional_entries map_of_priority_entries map_of_type_entries
        map_of_description_entries truthy_type_literal truthy_priority_literal
        del: map_of_append split: option.splits js_optional.splits)

lemma props_keys:
  "fst ` set (notionPagePropertiesFrom i) \<subseteq>
     {''Name'', ''Issue Number'', ''State'', ''Issue URL'', ''Created At'',
      ''Priority'', ''Type'', ''Description''}"
  unfolding notionPagePropertiesFrom_def ISSUE_COLUMN_def set_append image_Un
    fst_priority_entries fst_type_entries fst_description_entries
  by (auto split: option.splits js_optional.splits)

lemma props_distinct: "distinct (map fst (notionPagePropertiesFrom i))"
proof -
  have p: "map fst (priority_entries (priority i)) = [] \<or> map fst (priority_entries (priority i)) = [''Priority'']"
    by (cases "priority i") (simp_all add: truthy_priority_literal)
  have t: "map fst (type_entries (type_issue i)) = [] \<or> map fst (type_entries (type_issue i)) = [''Type'']"
    by (cases "type_issue i") (simp_all add: truthy_type_literal)
  have d: "map fst (description_entries (description i)) = []
           \<or> map fst (description_entries (description i)) = [''Description'']"
    by (cases "description i") simp_all
  from p t d show ?thesis
    unfolding notionPagePropertiesFrom_def ISSUE_COLUMN_def map_append
    by (elim disjE) simp_all
qed

lemma props_key_iff: "(k \<in> fst ` set (notionPagePropertiesFrom i)) = (map_of (notionPagePropertiesFrom i) k \<noteq> None)"
  by (simp add: map_of_eq_None_iff)

lemma description_extract:
  "description (extractIssuePropsFrom issue) = body_description (body issue)"
  by (simp add: extractIssuePropsFrom_def)

lemma type_issue_extract:
  "type_issue (extractIssuePropsFrom issue) = getTypeFrom (labels issue)"
  by (simp add: extractIssuePropsFrom_def)

lemma priority_extract:
  "priority (extractIssuePropsFrom issue) = getPriorityFrom (labels issue)"
  by (simp add: extractIssuePropsFrom_def)

text \<open>
  C3. The classification tag of the extracted issue is Bug whenever a label object
  named "Bug" is among the labels of the raw issue, also when a "Tech Debt" label is
  there too, and it is absent when no label object is named "Bug" or "Tech Debt".
  Likewise the priority tag of the extracted issue is Low Priority whenever a label
  object named "Low Priority" is there, also next to a "High Priority" one, and absent
  when neither is there. Reversing the label array, or reordering it in any way,
  changes neither tag of the extracted issue. The two tags are what \<open>getTypeFrom\<close> and
  \<open>getPriorityFrom\<close> return on the labels.
\<close>

theorem label_precedence:
  "((\<exists>l. LabelObject l \<in> set (labels issue) \<and> name l = Some ''Bug'')
        \<longrightarrow> type_issue (extractIssuePropsFrom issue) = Some Bug)
   \<and> ((\<forall>l. LabelObject l \<in> set (labels issue) \<longrightarrow>
            name l \<noteq> Some ''Bug'' \<and> name l \<noteq> Some ''Tech Debt'')
        \<longrightarrow> type_issue (extractIssuePropsFrom issue) = None)
   \<and> ((\<exists>l. LabelObject l \<in> set (labels issue) \<and> name l = Some ''Low Priority'')
        \<longrightarrow> priority (extractIssuePropsFrom issue) = Some Low_Priority)
   \<and> ((\<forall>l. LabelObject l \<in> set (labels issue) \<longrightarrow>
            name l \<noteq> Some ''Low Priority'' \<and> name l \<noteq> Some ''High Priority'')
        \<longrightarrow> priority (extractIssuePropsFrom issue) = None)
   \<and> type_issue (extractIssuePropsFrom (issue\<lparr>labels := rev (labels issue)\<rparr>))
       = type_issue (extractIssuePropsFrom issue)
   \<and> priority (extractIssuePropsFrom (issue\<lparr>labels := rev (labels issue)\<rparr>))
       = priority (extractIssuePropsFrom issue)
   \<and> (set (labels issue') = set (labels issue) \<longrightarrow>
         type_issue (extractIssuePropsFrom issue') = type_issue (extractIssuePropsFrom issue)
         \<and> priority (extractIssuePropsFrom issue') = priority (extractIssuePropsFrom issue))
   \<and> type_issue (extractIssuePropsFrom issue) = getTypeFrom (labels issue)
   \<and> priority (extractIssuePropsFrom issue) = getPriorityFrom (labels issue)"
proof -
  let ?ls = "labels issue"
  have a: "(\<exists>l. LabelObject l \<in> set ?ls \<and> name l = Some ''Bug'')
        \<longrightarrow> type_issue (extractIssuePropsFrom issue) = Some Bug"
    unfolding type_issue_extract using getTypeFrom_Bug by blast
  have b: "(\<forall>l. LabelObject l \<in> set ?ls \<longrightarrow>
            name l \<noteq> Some ''Bug'' \<and> name l \<noteq> Some ''Tech Debt'')
        \<longrightarrow> type_issue (extractIssuePropsFrom issue) = None"
    unfolding type_issue_extract using getTypeFrom_None by blast
  have c: "(\<exists>l. LabelObject l \<in> set ?ls \<and> name l = Some ''Low Priority'')
        \<longrightarrow> priority (extractIssuePropsFrom issue) = Some Low_Priority"
    unfolding priority_extract using getPriorityFrom_Low by blast
  have d: "(\<forall>l. LabelObject l \<in> set ?ls \<longrightarrow>
            name l \<noteq> Some ''Low Priority'' \<and> name l \<noteq> Some ''High Priority'')
        \<longrightarrow> priority (extractIssuePropsFrom issue) = None"
    unfolding priority_extract using getPriorityFrom_None by blast
  have e: "type_issue (extractIssuePropsFrom (issue\<lparr>labels := rev ?ls\<rparr>))
       = type_issue (extractIssuePropsFrom issue)"
    unfolding type_issue_extract by (rule getTypeFrom_set_cong) simp
  have f: "priority (extractIssuePropsFrom (issue\<lparr>labels := rev ?ls\<rparr>))
       = priority (extractIssuePropsFrom issue)"
    unfolding priority_extract by (rule getPriorityFrom_set_cong) simp
  have g: "set (labels issue') = set ?ls \<longrightarrow>
         type_issue (extractIssuePropsFrom issue') = type_issue (extractIssuePropsFrom issue)
         \<and> priority (extractIssuePropsFrom issue') = priority (extractIssuePropsFrom issue)"
    unfolding type_issue_extract priority_extract
    using getTypeFrom_set_cong getPriorityFrom_set_cong by blast
  show ?thesis
    by (intro conjI) (rule a b c d e f g type_issue_extract priority_extract)+
qed

lemma raw_labels:
  "labels raw_issue_tagged =
     [LabelObject \<lparr>name = Some ''Tech Debt'', color = None\<rparr>,
      LabelObject \<lparr>name = Some ''High Priority'', color = None\<rparr>,
      LabelObject \<lparr>name = Some ''Bug'', color = None\<rparr>,
      LabelObject \<lparr>name = Some ''Low Priority'', color = None\<rparr>]"
  "labels raw_issue_untagged = [LabelObject \<lparr>name = Some ''question'', color = None\<rparr>]"
  by (simp_all add: raw_issue_tagged_def raw_issue_untagged_def)

theorem label_precedence_witness:
  "type_issue (extractIssuePropsFrom raw_issue_tagged) = Some Bug
   \<and> priority (extractIssuePropsFrom raw_issue_tagged) = Some Low_Priority
   \<and> type_issue (extractIssuePropsFrom
         (raw_issue_tagged\<lparr>labels := rev (labels raw_issue_tagged)\<rparr>)) = Some Bug
   \<and> priority (extractIssuePropsFrom
         (raw_issue_tagged\<lparr>labels := rev (labels raw_issue_tagged)\<rparr>)) = Some Low_Priority
   \<and> type_issue (extractIssuePropsFrom raw_issue_untagged) = None
   \<and> priority (extractIssuePropsFrom raw_issue_untagged) = None"
proof -
  note T = label_precedence[of raw_issue_tagged raw_issue_tagged]
  note U = label_precedence[of raw_issue_untagged raw_issue_untagged]
  have h1: "\<exists>l. LabelObject l \<in> set (labels raw_issue_tagged) \<and> name l = Some ''Bug''"
    unfolding raw_labels by (rule exI[of _ "\<lparr>name = Some ''Bug'', color = None\<rparr>"]) simp
  have h2: "\<exists>l. LabelObject l \<in> set (labels raw_issue_tagged) \<and> name l = Some ''Low Priority''"
    unfolding raw_labels by (rule exI[of _ "\<lparr>name = Some ''Low Priority'', color = None\<rparr>"]) simp
  have h3: "\<forall>l. LabelObject l \<in> set (labels raw_issue_untagged) \<longrightarrow>
              name l \<noteq> Some ''Bug'' \<and> name l \<noteq> Some ''Tech Debt''"
    unfolding raw_labels by simp
  have h4: "\<forall>l. LabelObject l \<in> set (labels raw_issue_untagged) \<longrightarrow>
              name l \<noteq> Some ''Low Priority'' \<and> name l \<noteq> Some ''High Priority''"
    unfolding raw_labels by simp
  have r1: "type_issue (extractIssuePropsFrom raw_issue_tagged) = Some Bug"
    using T[THEN conjunct1] h1 by (rule mp)
  have r2: "priority (extractIssuePropsFrom raw_issue_tagged) = Some Low_Priority"
    using T[THEN conjunct2, THEN conjunct2, THEN conjunct1] h2 by (rule mp)
  have r3: "type_issue (extractIssuePropsFrom
         (raw_issue_tagged\<lparr>labels := rev (labels raw_issue_tagged)\<rparr>)) = Some Bug"
    unfolding T[THEN conjunct2, THEN conjunct2, THEN conjunct2, THEN conjunct2, THEN conjunct1]
    by (rule r1)
  have r4: "priority (extractIssuePropsFrom
         (raw_issue_tagged\<lparr>labels := rev (labels raw_issue_tagged)\<rparr>)) = Some Low_Priority"
    unfolding T[THEN conjunct2, THEN conjunct2, THEN conjunct2, THEN conjunct2, THEN conjunct2,
                THEN conjunct1]
    by (rule r2)
  have r5: "type_issue (extractIssuePropsFrom raw_issue_untagged) = None"
    using U[THEN conjunct2, THEN conjunct1] h3 by (rule mp)
  have r6: "priority (extractIssuePropsFrom raw_issue_untagged) = None"
    using U[THEN conjunct2, THEN conjunct2, THEN conjunct2, THEN conjunct1] h4 by (rule mp)
  show ?thesis
    by (intro conjI) (rule r1 r2 r3 r4 r5 r6)+
qed

text \<open>
  C10. Only label objects are matched: a name is found exactly when some label object
  of the list carries it. A list of bare strings alone yields neither tag, a bare string
  added anywhere in a list changes neither tag, and in particular the list holding only
  the string "Bug" (or "Tech Debt", "Low Priority", "High Priority") yields no tag.
\<close>

theorem bare_string_labels_never_match:
  "has ls i = (\<exists>l. LabelObject l \<in> set ls \<and> name l = Some i)
   \<and> getTypeFrom (map LabelString ss) = None
   \<and> getPriorityFrom (map LabelString ss) = None
   \<and> getTypeFrom (xs @ LabelString s # ys) = getTypeFrom (xs @ ys)
   \<and> getPriorityFrom (xs @ LabelString s # ys) = getPriorityFrom (xs @ ys)
   \<and> getTypeFrom [LabelString ''Bug''] = None
   \<and> getTypeFrom [LabelString ''Tech Debt''] = None
   \<and> getPriorityFrom [LabelString ''Low Priority''] = None
   \<and> getPriorityFrom [LabelString ''High Priority''] = None"
proof -
  have a: "has ls i = (\<exists>l. LabelObject l \<in> set ls \<and> name l = Some i)"
    by (rule has_iff)
  have b: "getTypeFrom (map LabelString zs) = None" for zs
    by (simp add: getTypeFrom_def has_all_strings)
  have c: "getPriorityFrom (map LabelString zs) = None" for zs
    by (simp add: getPriorityFrom_def has_all_strings)
  have h: "has (xs @ LabelString s # ys) j = has (xs @ ys) j" for j
    by (simp add: has_def)
  have d: "getTypeFrom (xs @ LabelString s # ys) = getTypeFrom (xs @ ys)"
    by (simp add: getTypeFrom_def h)
  have e: "getPriorityFrom (xs @ LabelString s # ys) = getPriorityFrom (xs @ ys)"
    by (simp add: getPriorityFrom_def h)
  have f: "getTypeFrom [LabelString t] = None" for t
    using b[of "[t]"] by simp
  have g: "getPriorityFrom [LabelString t] = None" for t
    using c[of "[t]"] by simp
  show ?thesis
    by (intro conjI) (rule a b c d e f g)+
qed

theorem bare_string_labels_never_match_witness:
  "has [LabelString ''Bug'', LabelObject \<lparr>name = Some ''Tech Debt'', color = None\<rparr>] ''Bug'' = False
   \<and> getTypeFrom [LabelString ''Bug'', LabelObject \<lparr>name = Some ''Tech Debt'', color = None\<rparr>]
       = Some Tech_Debt
   \<and> getTypeFrom [LabelString ''Bug''] = None
   \<and> getPriorityFrom [LabelString ''Low Priority''] = None"
proof -
  let ?td = "LabelObject \<lparr>name = Some ''Tech Debt'', color = None\<rparr>"
  note T = bare_string_labels_never_match[of "[LabelString ''Bug'', ?td]" "''Bug''" "[]" "[]" "''Bug''" "[?td]"]
  have r1: "has [LabelString ''Bug'', ?td] ''Bug'' = False"
    using T by simp
  have "getTypeFrom [LabelString ''Bug'', ?td] = getTypeFrom [?td]"
    using T by simp
  also have "getTypeFrom [?td] = Some Tech_Debt"
    by (simp add: getTypeFrom_def has_def)
  finally have r2: "getTypeFrom [LabelString ''Bug'', ?td] = Some Tech_Debt" .
  from T r1 r2 show ?thesis by blast
qed

text \<open>
  C5. The description of the extracted issue is the first 1999 code units of the body:
  it is never longer than 1999, it is the whole body when the body has at most 1999,
  and it is \<open>undefined\<close> when the body is \<open>null\<close> or \<open>undefined\<close>.
\<close>

theorem description_is_body_prefix:
  "description (extractIssuePropsFrom issue) =
     (case body issue of Defined b \<Rightarrow> Defined (take 1999 b) | _ \<Rightarrow> Undefined)
   \<and> (\<forall>d. description (extractIssuePropsFrom issue) = Defined d \<longrightarrow> length d \<le> 1999)
   \<and> (\<forall>b. body issue = Defined b \<and> length b \<le> 1999 \<longrightarrow>
          description (extractIssuePropsFrom issue) = Defined b)
   \<and> (body issue = Null \<or> body issue = Undefined \<longrightarrow>
          description (extractIssuePropsFrom issue) = Undefined)"
proof -
  have a: "description (extractIssuePropsFrom issue) =
     (case body issue of Defined b \<Rightarrow> Defined (take 1999 b) | _ \<Rightarrow> Undefined)"
    by (cases "body issue") (simp_all add: description_extract substring_0_1999_def)
  have b: "\<forall>d. description (extractIssuePropsFrom issue) = Defined d \<longrightarrow> length d \<le> 1999"
    unfolding a by (cases "body issue") auto
  have c: "\<forall>b. body issue = Defined b \<and> length b \<le> 1999 \<longrightarrow>
          description (extractIssuePropsFrom issue) = Defined b"
    unfolding a by simp
  have d: "body issue = Null \<or> body issue = Undefined \<longrightarrow>
          description (extractIssuePropsFrom issue) = Undefined"
    unfolding a by auto
  show ?thesis
    by (intro conjI) (rule a b c d)+
qed

lemma raw_bodies:
  "body raw_issue_long = Defined (replicate 2001 (CHR ''a''))"
  "body raw_issue_short = Defined ''text''"
  "body raw_issue_null = Null"
  "body raw_issue_empty = Defined []"
  by (simp_all add: raw_issue_long_def raw_issue_short_def raw_issue_null_def raw_issue_empty_def)

theorem description_is_body_prefix_witness:
  "description (extractIssuePropsFrom raw_issue_long) = Defined (replicate 1999 (CHR ''a''))
   \<and> description (extractIssuePropsFrom raw_issue_short) = Defined ''text''
   \<and> description (extractIssuePropsFrom raw_issue_null) = Undefined"
proof -
  have r1: "description (extractIssuePropsFrom raw_issue_long) = Defined (replicate 1999 (CHR ''a''))"
    using description_is_body_prefix[of raw_issue_long, THEN conjunct1]
    by (simp add: raw_bodies)
  have h2: "body raw_issue_short = Defined ''text'' \<and> length ''text'' \<le> 1999"
    by (simp add: raw_bodies)
  have r2: "description (extractIssuePropsFrom raw_issue_short) = Defined ''text''"
    using description_is_body_prefix[of raw_issue_short, THEN conjunct2, THEN conjunct2,
            THEN conjunct1, THEN spec, of "''text''"] h2
    by (rule mp)
  have h3: "body raw_issue_null = Null \<or> body raw_issue_null = Undefined"
    by (simp add: raw_bodies)
  have r3: "description (extractIssuePropsFrom raw_issue_null) = Undefined"
    using description_is_body_prefix[of raw_issue_null, THEN conjunct2, THEN conjunct2,
            THEN conjunct2] h3
    by (rule mp)
  show ?thesis
    by (intro conjI) (rule r1 r2 r3)+
qed

text \<open>
  C9. An issue whose body is the empty string gets a description that is defined and
  empty, and the mapper's field-set for it has no Description entry: the Description
  key is in the field-set of an extracted issue exactly when its description is a
  non-empty string, that is, when it is truthy.
\<close>

theorem empty_body_omits_description:
  "(body issue = Defined [] \<longrightarrow>
      description (extractIssuePropsFrom issue) = Defined []
      \<and> ''Description'' \<notin> fst ` set (notionPagePropertiesFrom (extractIssuePropsFrom issue))
      \<and> map_of (notionPagePropertiesFrom (extractIssuePropsFrom issue)) ''Description'' = None)
   \<and> (''Description'' \<in> fst ` set (notionPagePropertiesFrom e))
       = (\<exists>d. description e = Defined d \<and> d \<noteq> [])
   \<and> (''Description'' \<in> fst ` set (notionPagePropertiesFrom e)) = truthy (description e)"
proof -
  have k: "(''Description'' \<in> fst ` set (notionPagePropertiesFrom x))
       = (\<exists>d. description x = Defined d \<and> d \<noteq> [])" for x
    unfolding props_key_iff props_Description by (cases "description x") simp_all
  have t: "(''Description'' \<in> fst ` set (notionPagePropertiesFrom x)) = truthy (description x)" for x
    unfolding k by (cases "description x") (simp_all add: truthy_string_def)
  have a: "body issue = Defined [] \<longrightarrow>
      description (extractIssuePropsFrom issue) = Defined []
      \<and> ''Description'' \<notin> fst ` set (notionPagePropertiesFrom (extractIssuePropsFrom issue))
      \<and> map_of (notionPagePropertiesFrom (extractIssuePropsFrom issue)) ''Description'' = None"
  proof
    assume e: "body issue = Defined []"
    then have d: "description (extractIssuePropsFrom issue) = Defined []"
      by (simp add: description_extract substring_0_1999_def)
    have n: "''Description'' \<notin> fst ` set (notionPagePropertiesFrom (extractIssuePropsFrom issue))"
      unfolding k d by simp
    have m: "map_of (notionPagePropertiesFrom (extractIssuePropsFrom issue)) ''Description'' = None"
      unfolding props_Description d by simp
    from d n m show "description (extractIssuePropsFrom issue) = Defined []
      \<and> ''Description'' \<notin> fst ` set (notionPagePropertiesFrom (extractIssuePropsFrom issue))
      \<and> map_of (notionPagePropertiesFrom (extractIssuePropsFrom issue)) ''Description'' = None"
      by blast
  qed
  show ?thesis
    by (intro conjI) (rule a k t)+
qed

theorem empty_body_omits_description_witness:
  "body raw_issue_empty = Defined []
   \<and> description (extractIssuePropsFrom raw_issue_empty) = Defined []
   \<and> ''Description'' \<notin> fst ` set (notionPagePropertiesFrom (extractIssuePropsFrom raw_issue_empty))
   \<and> map_of (notionPagePropertiesFrom (extractIssuePropsFrom raw_issue_empty)) ''Description'' = None"
proof -
  have h: "body raw_issue_empty = Defined []"
    by (simp add: raw_bodies)
  note R = empty_body_omits_description[of raw_issue_empty, THEN conjunct1, THEN mp, OF h]
  show ?thesis
    by (intro conjI) (rule h R[THEN conjunct1] R[THEN conjunct2, THEN conjunct1]
          R[THEN conjunct2, THEN conjunct2])+
qed

text \<open>
  C4, as the code has it. The field-set always holds Name, Issue Number, State,
  Issue URL and Created At with the issue's title, identifier, state, URL and creation
  timestamp. It holds Priority and Type exactly when the issue has a priority and a
  type, and Description exactly when the description is a non-empty string
  (\<open>!!issue.description\<close> tests truthiness): an attribute that is absent, or a
  description that is empty, gives no entry at all. No key occurs twice and there is no
  other key.
\<close>

theorem mapper_field_set:
  "map_of (notionPagePropertiesFrom issue) ''Name''
     = Some (Title_value [Text_item (ExtractedGitHubIssue.title issue)])
   \<and> map_of (notionPagePropertiesFrom issue) ''Issue Number''
     = Some (Number_value (id_issue issue))
   \<and> map_of (notionPagePropertiesFrom issue) ''State''
     = Some (Select_value (ExtractedGitHubIssue.state issue))
   \<and> map_of (notionPagePropertiesFrom issue) ''Issue URL'' = Some (Url_value (url issue))
   \<and> map_of (notionPagePropertiesFrom issue) ''Created At''
     = Some (Date_value (ExtractedGitHubIssue.created_at issue))
   \<and> map_of (notionPagePropertiesFrom issue) ''Priority''
     = (case priority issue of None \<Rightarrow> None | Some q \<Rightarrow> Some (Select_value (priority_literal q)))
   \<and> map_of (notionPagePropertiesFrom issue) ''Type''
     = (case type_issue issue of None \<Rightarrow> None | Some q \<Rightarrow> Some (Select_value (type_literal q)))
   \<and> map_of (notionPagePropertiesFrom issue) ''Description''
     = (case description issue of
          Defined s \<Rightarrow> if s = [] then None else Some (Rich_text_value [Text_item s])
        | _ \<Rightarrow> None)
   \<and> (''Priority'' \<in> fst ` set (notionPagePropertiesFrom issue)) = (priority issue \<noteq> None)
   \<and> (''Type'' \<in> fst ` set (notionPagePropertiesFrom issue)) = (type_issue issue \<noteq> None)
   \<and> (''Description'' \<in> fst ` set (notionPagePropertiesFrom issue))
       = (\<exists>s. description issue = Defined s \<and> s \<noteq> [])
   \<and> distinct (map fst (notionPagePropertiesFrom issue))
   \<and> fst ` set (notionPagePropertiesFrom issue) \<subseteq>
       {''Name'', ''Issue Number'', ''State'', ''Issue URL'', ''Created At'',
        ''Priority'', ''Type'', ''Description''}"
proof -
  have p: "(''Priority'' \<in> fst ` set (notionPagePropertiesFrom issue)) = (priority issue \<noteq> None)"
    unfolding props_key_iff props_Priority by (cases "priority issue") simp_all
  have t: "(''Type'' \<in> fst ` set (notionPagePropertiesFrom issue)) = (type_issue issue \<noteq> None)"
    unfolding props_key_iff props_Type by (cases "type_issue issue") simp_all
  have d: "(''Description'' \<in> fst ` set (notionPagePropertiesFrom issue))
       = (\<exists>s. description issue = Defined s \<and> s \<noteq> [])"
    unfolding props_key_iff props_Description by (cases "description issue") simp_all
  show ?thesis
    by (intro conjI)
       (rule props_Name props_Issue_Number props_State props_Issue_URL props_Created_At
          props_Priority props_Type props_Description p t d props_distinct props_keys)+
qed

theorem mapper_field_set_witness:
  "map_of (notionPagePropertiesFrom issue_3) ''Name'' = Some (Title_value [Text_item ''third''])
   \<and> map_of (notionPagePropertiesFrom issue_3) ''Issue Number'' = Some (Number_value 3)
   \<and> map_of (notionPagePropertiesFrom issue_3) ''Priority'' = Some (Select_value ''Low Priority'')
   \<and> map_of (notionPagePropertiesFrom issue_3) ''Type'' = Some (Select_value ''Tech Debt'')
   \<and> map_of (notionPagePropertiesFrom issue_3) ''Description''
       = Some (Rich_text_value [Text_item ''text''])
   \<and> ''Priority'' \<notin> fst ` set (notionPagePropertiesFrom issue_1)
   \<and> ''Type'' \<notin> fst ` set (notionPagePropertiesFrom issue_1)
   \<and> ''Description'' \<notin> fst ` set (notionPagePropertiesFrom issue_1)"
proof -
  note T3 = mapper_field_set[of issue_3]
  note T1 = mapper_field_set[of issue_1]
  have a: "map_of (notionPagePropertiesFrom issue_3) ''Name'' = Some (Title_value [Text_item ''third''])"
    using T3[THEN conjunct1] by (simp add: issue_3_def)
  have b: "map_of (notionPagePropertiesFrom issue_3) ''Issue Number'' = Some (Number_value 3)"
    using T3[THEN conjunct2, THEN conjunct1] by (simp add: issue_3_def)
  have c: "map_of (notionPagePropertiesFrom issue_3) ''Priority'' = Some (Select_value ''Low Priority'')"
    using T3[THEN conjunct2, THEN conjunct2, THEN conjunct2, THEN conjunct2, THEN conjunct2,
             THEN conjunct1]
    by (simp add: issue_3_def)
  have d: "map_of (notionPagePropertiesFrom issue_3) ''Type'' = Some (Select_value ''Tech Debt'')"
    using T3[THEN conjunct2, THEN conjunct2, THEN conjunct2, THEN conjunct2, THEN conjunct2,
             THEN conjunct2, THEN conjunct1]
    by (simp add: issue_3_def)
  have e: "map_of (notionPagePropertiesFrom issue_3) ''Description''
             = Some (Rich_text_value [Text_item ''text''])"
    using T3[THEN conjunct2, THEN conjunct2, THEN conjunct2, THEN conjunct2, THEN conjunct2,
             THEN conjunct2, THEN conjunct2, THEN conjunct1]
    by (simp add: issue_3_def)
  have f: "''Priority'' \<notin> fst ` set (notionPagePropertiesFrom issue_1)"
    using T1[THEN conjunct2, THEN conjunct2, THEN conjunct2, THEN conjunct2, THEN conjunct2,
             THEN conjunct2, THEN conjunct2, THEN conjunct2, THEN conjunct1]
    by (simp add: issue_1_def)
  have g: "''Type'' \<notin> fst ` set (notionPagePropertiesFrom issue_1)"
    using T1[THEN conjunct2, THEN conjunct2, THEN conjunct2, THEN conjunct2, THEN conjunct2,
             THEN conjunct2, THEN conjunct2, THEN conjunct2, THEN conjunct2, THEN conjunct1]
    by (simp add: issue_1_def)
  have h: "''Description'' \<notin> fst ` set (notionPagePropertiesFrom issue_1)"
    using T1[THEN conjunct2, THEN conjunct2, THEN conjunct2, THEN conjunct2, THEN conjunct2,
             THEN conjunct2, THEN conjunct2, THEN conjunct2, THEN conjunct2, THEN conjunct2,
             THEN conjunct1]
    by (simp add: issue_1_def)
  show ?thesis
    by (intro conjI) (rule a b c d e f g h)+
qed

text \<open>
  C4 as stated fails: an issue whose description is present, as the empty string, gets
  no Description entry.
\<close>

theorem mapper_field_set_counterexample:
  "description issue_4 = Defined []
   \<and> ''Description'' \<notin> fst ` set (notionPagePropertiesFrom issue_4)
   \<and> map_of (notionPagePropertiesFrom issue_4) ''Description'' = None"
  by (simp add: notionPagePropertiesFrom_def ISSUE_COLUMN_def issue_4_def truthy_string_def)

section \<open>Reconciliation engine: facts and claims\<close>

lemma truncate_with_pageId: "ExtractedGitHubIssue.truncate (with_pageId i p) = i"
  by (simp add: with_pageId_def ExtractedGitHubIssue.defs IssueWithPageId.defs)

lemma pageId_with_pageId: "pageId (with_pageId i p) = p"
  by (simp add: with_pageId_def ExtractedGitHubIssue.defs IssueWithPageId.defs)

lemma id_issue_with_pageId: "id_issue (with_pageId i p) = id_issue i"
  by (simp add: with_pageId_def ExtractedGitHubIssue.defs IssueWithPageId.defs)

lemma truthy_opt_iff: "truthy_opt x = (\<exists>p. x = Some p \<and> p \<noteq> [])"
  by (cases x) (simp_all add: truthy_string_def)

lemma not_truthy_opt_iff: "(\<not> truthy_opt x) = (x = None \<or> x = Some [])"
  by (cases x) (simp_all add: truthy_string_def)

lemma getNotionOperations_loop_eq:
  "getNotionOperations_loop issues m ops =
     \<lparr> issuesToCreate = issuesToCreate ops @ filter (\<lambda>i. \<not> truthy_opt (m (id_issue i))) issues,
       issuesToUpdate = issuesToUpdate ops
         @ map (\<lambda>i. with_pageId i (the (m (id_issue i))))
             (filter (\<lambda>i. truthy_opt (m (id_issue i))) issues) \<rparr>"
proof (induction issues arbitrary: ops)
  case Nil
  show ?case by simp
next
  case (Cons issue rest)
  show ?case
  proof (cases "m (id_issue issue)")
    case None
    then show ?thesis by (simp add: Cons.IH)
  next
    case (Some p)
    then show ?thesis by (cases "truthy_string p") (simp_all add: Cons.IH)
  qed
qed

lemma issuesToCreate_eq:
  "issuesToCreate (getNotionOperations issues m) = filter (\<lambda>i. \<not> truthy_opt (m (id_issue i))) issues"
  by (simp add: getNotionOperations_def getNotionOperations_loop_eq)

lemma issuesToUpdate_eq:
  "issuesToUpdate (getNotionOperations issues m) =
     map (\<lambda>i. with_pageId i (the (m (id_issue i)))) (filter (\<lambda>i. truthy_opt (m (id_issue i))) issues)"
  by (simp add: getNotionOperations_def getNotionOperations_loop_eq)

lemma truncate_issuesToUpdate:
  "map ExtractedGitHubIssue.truncate (issuesToUpdate (getNotionOperations issues m)) =
     filter (\<lambda>i. truthy_opt (m (id_issue i))) issues"
  by (simp add: issuesToUpdate_eq o_def truncate_with_pageId)

lemma count_list_filter: "count_list (filter P xs) x = (if P x then count_list xs x else 0)"
  by (induction xs) auto

lemma set_issuesToCreate:
  "set (issuesToCreate (getNotionOperations issues m)) =
     {i \<in> set issues. m (id_issue i) = None \<or> m (id_issue i) = Some []}"
  by (simp add: issuesToCreate_eq not_truthy_opt_iff)

lemma set_issuesToUpdate:
  "set (issuesToUpdate (getNotionOperations issues m)) =
     {with_pageId i p | i p. i \<in> set issues \<and> m (id_issue i) = Some p \<and> p \<noteq> []}"
proof (rule set_eqI)
  fix u
  show "(u \<in> set (issuesToUpdate (getNotionOperations issues m))) =
        (u \<in> {with_pageId i p | i p. i \<in> set issues \<and> m (id_issue i) = Some p \<and> p \<noteq> []})"
  proof
    assume "u \<in> set (issuesToUpdate (getNotionOperations issues m))"
    then obtain i where i: "i \<in> set issues" "truthy_opt (m (id_issue i))"
      and u: "u = with_pageId i (the (m (id_issue i)))"
      unfolding issuesToUpdate_eq by auto
    from i(2) obtain p where p: "m (id_issue i) = Some p" "p \<noteq> []"
      unfolding truthy_opt_iff by blast
    with i(1) u show "u \<in> {with_pageId i p | i p. i \<in> set issues \<and> m (id_issue i) = Some p \<and> p \<noteq> []}"
      by auto
  next
    assume "u \<in> {with_pageId i p | i p. i \<in> set issues \<and> m (id_issue i) = Some p \<and> p \<noteq> []}"
    then obtain i p where i: "i \<in> set issues" "m (id_issue i) = Some p" "p \<noteq> []"
      and u: "u = with_pageId i p"
      by blast
    from i have "truthy_opt (m (id_issue i))" "the (m (id_issue i)) = p"
      by (simp_all add: truthy_opt_iff)
    with i(1) u have "u \<in> (\<lambda>i. with_pageId i (the (m (id_issue i))))
                          ` {i \<in> set issues. truthy_opt (m (id_issue i))}"
      by blast
    then show "u \<in> set (issuesToUpdate (getNotionOperations issues m))"
      unfolding issuesToUpdate_eq by simp
  qed
qed

lemma length_getNotionOperations:
  "length (issuesToCreate (getNotionOperations issues m))
     + length (issuesToUpdate (getNotionOperations issues m)) = length issues"
proof -
  have "length (issuesToUpdate (getNotionOperations issues m))
          = length (filter (\<lambda>i. truthy_opt (m (id_issue i))) issues)"
    by (simp add: issuesToUpdate_eq)
  moreover have "length (issuesToCreate (getNotionOperations issues m))
          = length (filter (\<lambda>i. \<not> truthy_opt (m (id_issue i))) issues)"
    by (simp add: issuesToCreate_eq)
  ultimately show ?thesis
    using sum_length_filter_compl[of "\<lambda>i. truthy_opt (m (id_issue i))" issues] by simp
qed

lemma count_getNotionOperations:
  "count_list (issuesToCreate (getNotionOperations issues m)) i
     + count_list (map ExtractedGitHubIssue.truncate (issuesToUpdate (getNotionOperations issues m))) i
   = count_list issues i"
  unfolding truncate_issuesToUpdate issuesToCreate_eq count_list_filter by simp

text \<open>
  C1. The row ids of the mapping are Notion page ids (\<open>init\<close> stores \<open>page.id\<close>),
  which are never the empty string. For every such mapping and every input list, every
  occurrence of an issue in the input goes to exactly one of the two lists: to the
  update list, paired with the row id the mapping resolves its identifier to, if and
  only if its identifier is a key of the mapping, and otherwise to the create list.
\<close>

theorem reconciliation_partition:
  assumes "\<forall>k. m k \<noteq> Some []"
  shows
  "set (issuesToCreate (getNotionOperations issues m)) =
     {i \<in> set issues. id_issue i \<notin> dom m}
   \<and> set (issuesToUpdate (getNotionOperations issues m)) =
     {with_pageId i p | i p. i \<in> set issues \<and> m (id_issue i) = Some p}
   \<and> length (issuesToCreate (getNotionOperations issues m))
       + length (issuesToUpdate (getNotionOperations issues m)) = length issues
   \<and> (\<forall>i. count_list (issuesToCreate (getNotionOperations issues m)) i
          + count_list (map ExtractedGitHubIssue.truncate
              (issuesToUpdate (getNotionOperations issues m))) i
        = count_list issues i)
   \<and> (\<forall>i \<in> set issues.
         (i \<in> ExtractedGitHubIssue.truncate ` set (issuesToUpdate (getNotionOperations issues m)))
           = (id_issue i \<in> dom m)
         \<and> (i \<in> set (issuesToCreate (getNotionOperations issues m)))
           = (id_issue i \<notin> dom m))
   \<and> (\<forall>u \<in> set (issuesToUpdate (getNotionOperations issues m)).
         m (id_issue u) = Some (pageId u))"
proof -
  let ?r = "getNotionOperations issues m"
  have key: "truthy_opt (m k) = (k \<in> dom m)" for k
    using assms[THEN spec, of k] by (cases "m k") (auto simp: truthy_string_def)
  have ne: "(m k = Some p \<and> p \<noteq> []) = (m k = Some p)" for k p
    using assms[THEN spec, of k] by auto
  have a: "set (issuesToCreate ?r) = {i \<in> set issues. id_issue i \<notin> dom m}"
    unfolding issuesToCreate_eq key by simp
  have b: "set (issuesToUpdate ?r) =
     {with_pageId i p | i p. i \<in> set issues \<and> m (id_issue i) = Some p}"
    unfolding set_issuesToUpdate ne ..
  have c: "length (issuesToCreate ?r) + length (issuesToUpdate ?r) = length issues"
    by (rule length_getNotionOperations)
  have d: "\<forall>i. count_list (issuesToCreate ?r) i
          + count_list (map ExtractedGitHubIssue.truncate (issuesToUpdate ?r)) i
        = count_list issues i"
    by (simp add: count_getNotionOperations)
  have t: "ExtractedGitHubIssue.truncate ` set (issuesToUpdate ?r)
             = {i \<in> set issues. id_issue i \<in> dom m}"
    using truncate_issuesToUpdate[of issues m, THEN arg_cong, of set] unfolding key by simp
  have e: "\<forall>i \<in> set issues.
         (i \<in> ExtractedGitHubIssue.truncate ` set (issuesToUpdate ?r)) = (id_issue i \<in> dom m)
         \<and> (i \<in> set (issuesToCreate ?r)) = (id_issue i \<notin> dom m)"
    unfolding t a by simp
  have f: "\<forall>u \<in> set (issuesToUpdate ?r). m (id_issue u) = Some (pageId u)"
    unfolding b by (auto simp: id_issue_with_pageId pageId_with_pageId)
  show ?thesis
    by (intro conjI) (rule a b c d e f)+
qed

lemma example_ids:
  "id_issue issue_1 = 1" "id_issue issue_2 = 2" "id_issue issue_3 = 3" "id_issue issue_4 = 4"
  by (simp_all add: issue_1_def issue_2_def issue_3_def issue_4_def)

lemma example_lookups:
  "mapping_1 1 = Some ''rowA''" "mapping_1 2 = None" "mapping_1 3 = None"
  by (simp_all add: mapping_1_def)

theorem reconciliation_partition_witness:
  "(\<forall>k. mapping_1 k \<noteq> Some [])
   \<and> id_issue issue_1 \<in> dom mapping_1
   \<and> id_issue issue_2 \<notin> dom mapping_1
   \<and> issue_2 \<in> set (issuesToCreate (getNotionOperations [issue_1, issue_2] mapping_1))
   \<and> issue_1 \<notin> set (issuesToCreate (getNotionOperations [issue_1, issue_2] mapping_1))
   \<and> with_pageId issue_1 ''rowA'' \<in> set (issuesToUpdate (getNotionOperations [issue_1, issue_2] mapping_1))
   \<and> length (issuesToCreate (getNotionOperations [issue_1, issue_2] mapping_1))
     + length (issuesToUpdate (getNotionOperations [issue_1, issue_2] mapping_1)) = 2"
proof -
  have h: "\<forall>k. mapping_1 k \<noteq> Some []"
    by (simp add: mapping_1_def)
  note T = reconciliation_partition[OF h, of "[issue_1, issue_2]"]
  have d1: "id_issue issue_1 \<in> dom mapping_1"
    by (simp add: example_ids example_lookups dom_def)
  have d2: "id_issue issue_2 \<notin> dom mapping_1"
    by (simp add: example_ids example_lookups dom_def)
  have r1: "issue_2 \<in> set (issuesToCreate (getNotionOperations [issue_1, issue_2] mapping_1))"
    unfolding T[THEN conjunct1] using d2 by simp
  have r2: "issue_1 \<notin> set (issuesToCreate (getNotionOperations [issue_1, issue_2] mapping_1))"
    unfolding T[THEN conjunct1] using d1 by simp
  have "\<exists>i p. with_pageId issue_1 ''rowA'' = with_pageId i p \<and> i \<in> set [issue_1, issue_2]
           \<and> mapping_1 (id_issue i) = Some p"
    by (intro exI[of _ issue_1] exI[of _ "''rowA''"]) (simp add: example_ids example_lookups)
  then have r3: "with_pageId issue_1 ''rowA''
                  \<in> set (issuesToUpdate (getNotionOperations [issue_1, issue_2] mapping_1))"
    unfolding T[THEN conjunct2, THEN conjunct1] by simp
  have r4: "length (issuesToCreate (getNotionOperations [issue_1, issue_2] mapping_1))
            + length (issuesToUpdate (getNotionOperations [issue_1, issue_2] mapping_1)) = 2"
    using T[THEN conjunct2, THEN conjunct2, THEN conjunct1] by simp
  show ?thesis
    by (intro conjI) (rule h d1 d2 r1 r2 r3 r4)+
qed

text \<open>
  C6. The create list is the input list with the issues that have a truthy row id
  taken out, and the update list, without the row ids, is the input list with the other
  issues taken out: both are subsequences of the input, in input order, nothing is
  reordered and no duplicate is dropped (the lengths add up to the input's). The pass
  is linear: the result for a list \<open>xs @ ys\<close> is the result for \<open>xs\<close> followed by the
  result for \<open>ys\<close>.
\<close>

theorem reconciliation_preserves_order:
  "issuesToCreate (getNotionOperations issues m)
     = filter (\<lambda>i. \<not> truthy_opt (m (id_issue i))) issues
   \<and> map ExtractedGitHubIssue.truncate (issuesToUpdate (getNotionOperations issues m))
     = filter (\<lambda>i. truthy_opt (m (id_issue i))) issues
   \<and> subseq (issuesToCreate (getNotionOperations issues m)) issues
   \<and> subseq (map ExtractedGitHubIssue.truncate (issuesToUpdate (getNotionOperations issues m))) issues
   \<and> length (issuesToCreate (getNotionOperations issues m))
       + length (issuesToUpdate (getNotionOperations issues m)) = length issues
   \<and> issuesToCreate (getNotionOperations (xs @ ys) m)
       = issuesToCreate (getNotionOperations xs m) @ issuesToCreate (getNotionOperations ys m)
   \<and> issuesToUpdate (getNotionOperations (xs @ ys) m)
       = issuesToUpdate (getNotionOperations xs m) @ issuesToUpdate (getNotionOperations ys m)"
proof -
  let ?r = "getNotionOperations issues m"
  have a: "issuesToCreate ?r = filter (\<lambda>i. \<not> truthy_opt (m (id_issue i))) issues"
    by (rule issuesToCreate_eq)
  have b: "map ExtractedGitHubIssue.truncate (issuesToUpdate ?r)
     = filter (\<lambda>i. truthy_opt (m (id_issue i))) issues"
    by (rule truncate_issuesToUpdate)
  have c: "subseq (issuesToCreate ?r) issues"
    unfolding a by (rule subseq_filter_left)
  have d: "subseq (map ExtractedGitHubIssue.truncate (issuesToUpdate ?r)) issues"
    unfolding b by (rule subseq_filter_left)
  have e: "length (issuesToCreate ?r) + length (issuesToUpdate ?r) = length issues"
    by (rule length_getNotionOperations)
  have f: "issuesToCreate (getNotionOperations (xs @ ys) m)
       = issuesToCreate (getNotionOperations xs m) @ issuesToCreate (getNotionOperations ys m)"
    by (simp add: issuesToCreate_eq)
  have g: "issuesToUpdate (getNotionOperations (xs @ ys) m)
       = issuesToUpdate (getNotionOperations xs m) @ issuesToUpdate (getNotionOperations ys m)"
    by (simp add: issuesToUpdate_eq)
  show ?thesis
    by (intro conjI) (rule a b c d e f g)+
qed

theorem reconciliation_preserves_order_witness:
  "issuesToCreate (getNotionOperations [issue_3, issue_1, issue_2, issue_3] mapping_1)
     = [issue_3, issue_2, issue_3]
   \<and> map ExtractedGitHubIssue.truncate
       (issuesToUpdate (getNotionOperations [issue_3, issue_1, issue_2, issue_3] mapping_1))
     = [issue_1]"
proof -
  note T = reconciliation_preserves_order[of "[issue_3, issue_1, issue_2, issue_3]" mapping_1 "[]" "[]"]
  have r1: "issuesToCreate (getNotionOperations [issue_3, issue_1, issue_2, issue_3] mapping_1)
              = [issue_3, issue_2, issue_3]"
    unfolding T[THEN conjunct1]
    by (simp add: example_ids example_lookups truthy_string_def)
  have r2: "map ExtractedGitHubIssue.truncate
              (issuesToUpdate (getNotionOperations [issue_3, issue_1, issue_2, issue_3] mapping_1))
              = [issue_1]"
    unfolding T[THEN conjunct2, THEN conjunct1]
    by (simp add: example_ids example_lookups truthy_string_def)
  from r1 r2 show ?thesis by blast
qed

text \<open>
  C7. The result of \<open>getNotionOperations\<close> is a function of the issue list and of what
  the mapping returns for the identifiers of those issues, and of nothing else: two
  runs on the same issues, with mappings that agree on these identifiers (in
  particular with the same mapping), yield identical create and update lists.
\<close>

theorem reconciliation_deterministic:
  assumes "issues' = issues"
    and "\<forall>i \<in> set issues. m' (id_issue i) = m (id_issue i)"
  shows "getNotionOperations issues' m' = getNotionOperations issues m"
proof -
  have c: "filter (\<lambda>i. \<not> truthy_opt (m' (id_issue i))) issues
             = filter (\<lambda>i. \<not> truthy_opt (m (id_issue i))) issues"
    using assms(2) by (intro filter_cong) simp_all
  have f: "filter (\<lambda>i. truthy_opt (m' (id_issue i))) issues
             = filter (\<lambda>i. truthy_opt (m (id_issue i))) issues"
    using assms(2) by (intro filter_cong) simp_all
  have u: "map (\<lambda>i. with_pageId i (the (m' (id_issue i)))) (filter (\<lambda>i. truthy_opt (m (id_issue i))) issues)
             = map (\<lambda>i. with_pageId i (the (m (id_issue i)))) (filter (\<lambda>i. truthy_opt (m (id_issue i))) issues)"
    using assms(2) by (intro map_cong) simp_all
  show ?thesis
    unfolding assms(1) getNotionOperations_def getNotionOperations_loop_eq c f u ..
qed

theorem reconciliation_deterministic_witness:
  "getNotionOperations [issue_1, issue_2] mapping_1
     = getNotionOperations [issue_1, issue_2] mapping_1
   \<and> getNotionOperations [issue_1, issue_2] (mapping_1(9 \<mapsto> ''rowZ''))
     = getNotionOperations [issue_1, issue_2] mapping_1"
proof -
  have h0: "\<forall>i \<in> set [issue_1, issue_2]. mapping_1 (id_issue i) = mapping_1 (id_issue i)"
    by simp
  have h: "\<forall>i \<in> set [issue_1, issue_2].
             (mapping_1(9 \<mapsto> ''rowZ'')) (id_issue i) = mapping_1 (id_issue i)"
    by (simp add: example_ids)
  show ?thesis
    by (intro conjI) (rule reconciliation_deterministic[OF refl h0] reconciliation_deterministic[OF refl h])+
qed

section \<open>Batch executor: facts and claims\<close>

lemma chunk_Nil: "chunk [] n = []"
  by (simp add: chunk.simps)

lemma chunk_step:
  "0 < n \<Longrightarrow> xs \<noteq> [] \<Longrightarrow> chunk xs n = take n xs # chunk (drop n xs) n"
  by (subst chunk.simps) simp

lemma concat_chunk: "0 < n \<Longrightarrow> concat (chunk xs n) = xs"
proof (induction xs n rule: chunk.induct)
  case (1 array sz)
  show ?case
  proof (cases "array = []")
    case True
    then show ?thesis by (simp add: chunk_Nil)
  next
    case False
    with "1.prems" have "concat (chunk (drop sz array) sz) = drop sz array"
      by (intro "1.IH") simp_all
    with False "1.prems" show ?thesis
      by (simp add: chunk_step)
  qed
qed

lemma chunk_group_size: "0 < n \<Longrightarrow> g \<in> set (chunk xs n) \<Longrightarrow> length g \<le> n \<and> g \<noteq> []"
proof (induction xs n rule: chunk.induct)
  case (1 array sz)
  show ?case
  proof (cases "array = []")
    case True
    with "1.prems" show ?thesis by (simp add: chunk_Nil)
  next
    case False
    with "1.prems" have "g = take sz array \<or> g \<in> set (chunk (drop sz array) sz)"
      by (simp add: chunk_step)
    then show ?thesis
    proof
      assume "g = take sz array"
      with False "1.prems" show ?thesis by simp
    next
      assume "g \<in> set (chunk (drop sz array) sz)"
      with False "1.prems" show ?thesis
        by (intro "1.IH") simp_all
    qed
  qed
qed

lemma ceil_div_small: "0 < (l::nat) \<Longrightarrow> l < n \<Longrightarrow> (l + n - 1) div n = 1"
proof (rule div_nat_eqI)
  assume "0 < l" "l < n"
  then show "n * 1 \<le> l + n - 1" by arith
next
  assume "0 < l" "l < n"
  then show "l + n - 1 < n * Suc 1" by arith
qed

lemma length_chunk: "0 < n \<Longrightarrow> length (chunk xs n) = (length xs + n - 1) div n"
proof (induction xs n rule: chunk.induct)
  case (1 array sz)
  show ?case
  proof (cases "array = []")
    case True
    with "1.prems" show ?thesis by (simp add: chunk_Nil)
  next
    case False
    with "1.prems" have ih: "length (chunk (drop sz array) sz) = (length array - sz + sz - 1) div sz"
      using "1.IH" by simp
    from False have pos: "0 < length array" by simp
    show ?thesis
    proof (cases "sz \<le> length array")
      case True
      then have "length array + sz - 1 = (length array - sz + sz - 1) + sz"
        using pos "1.prems" by simp
      then have "(length array + sz - 1) div sz = (length array - sz + sz - 1) div sz + 1"
        using "1.prems" by (simp only: div_add_self2)
      with ih False "1.prems" show ?thesis
        by (simp add: chunk_step)
    next
      case False
      then have d: "drop sz array = []" by simp
      from False pos have "(length array + sz - 1) div sz = 1"
        by (intro ceil_div_small) simp_all
      with d \<open>array \<noteq> []\<close> "1.prems" show ?thesis
        by (simp add: chunk_step chunk_Nil)
    qed
  qed
qed

lemma ceiling_tenth: "\<lceil>real n / 10\<rceil> = int ((n + 9) div 10)"
proof -
  have "\<lceil>real n / 10\<rceil> = \<lceil>(of_int (int n) :: real) / of_int 10\<rceil>" by simp
  also have "\<dots> = - (- int n div 10)" by (rule ceiling_divide_eq_div)
  also have "\<dots> = int ((n + 9) div 10)" by linarith
  finally show ?thesis .
qed

lemma createPagesFrom_loop_ok:
  "\<forall>i \<in> set (concat batches). client (Pages_create db (notionPagePropertiesFrom i)) \<Longrightarrow>
   createPagesFrom_loop client db batches io =
     (Resolved,
      io\<lparr>calls := calls io @ map (\<lambda>i. Pages_create db (notionPagePropertiesFrom i)) (concat batches),
         console := console io @ map (\<lambda>g. Completed_batch_size (length g)) batches\<rparr>)"
proof (induction batches arbitrary: io)
  case Nil
  show ?case by simp
next
  case (Cons b bs)
  from Cons.prems have ok: "list_all client (map (\<lambda>i. Pages_create db (notionPagePropertiesFrom i)) b)"
    by (simp add: list_all_iff)
  from Cons.prems have rest: "\<forall>i \<in> set (concat bs). client (Pages_create db (notionPagePropertiesFrom i))"
    by simp
  show ?case
    by (simp add: ok Cons.IH[OF rest] Let_def)
qed

text \<open>
  C2. The batch executor splits a list of \<open>N\<close> issues with the batch size 10 into
  exactly \<open>\<lceil>N / 10\<rceil>\<close> groups, each non-empty and of at most 10 issues, whose
  concatenation is the input list. When every call of the client resolves, the executor
  resolves after issuing exactly one create call per issue, in input order, and logging
  the size of each group in turn.
\<close>

theorem batch_executor_grouping:
  "length (chunk issues OPERATION_BATCH_SIZE) = (length issues + 9) div 10
   \<and> int (length (chunk issues OPERATION_BATCH_SIZE)) = \<lceil>real (length issues) / 10\<rceil>
   \<and> (\<forall>g \<in> set (chunk issues OPERATION_BATCH_SIZE). length g \<le> 10 \<and> g \<noteq> [])
   \<and> concat (chunk issues OPERATION_BATCH_SIZE) = issues
   \<and> ((\<forall>i \<in> set issues. client (Pages_create databaseId (notionPagePropertiesFrom i))) \<longrightarrow>
        createPagesFrom client databaseId issues io =
          (Resolved,
           io\<lparr>calls := calls io
                  @ map (\<lambda>i. Pages_create databaseId (notionPagePropertiesFrom i)) issues,
              console := console io
                  @ map (\<lambda>g. Completed_batch_size (length g))
                      (chunk issues OPERATION_BATCH_SIZE)\<rparr>)
        \<and> length (calls (snd (createPagesFrom client databaseId issues io)))
            = length (calls io) + length issues)"
proof -
  have pos: "0 < OPERATION_BATCH_SIZE"
    by (simp add: OPERATION_BATCH_SIZE_def)
  have a: "length (chunk issues OPERATION_BATCH_SIZE) = (length issues + 9) div 10"
    using length_chunk[OF pos, of issues] by (simp add: OPERATION_BATCH_SIZE_def)
  have b: "int (length (chunk issues OPERATION_BATCH_SIZE)) = \<lceil>real (length issues) / 10\<rceil>"
    unfolding a by (rule ceiling_tenth[symmetric])
  have c: "\<forall>g \<in> set (chunk issues OPERATION_BATCH_SIZE). length g \<le> 10 \<and> g \<noteq> []"
    using chunk_group_size[OF pos, of _ issues] by (simp add: OPERATION_BATCH_SIZE_def)
  have d: "concat (chunk issues OPERATION_BATCH_SIZE) = issues"
    by (rule concat_chunk[OF pos])
  have e: "(\<forall>i \<in> set issues. client (Pages_create databaseId (notionPagePropertiesFrom i))) \<longrightarrow>
        createPagesFrom client databaseId issues io =
          (Resolved,
           io\<lparr>calls := calls io
                  @ map (\<lambda>i. Pages_create databaseId (notionPagePropertiesFrom i)) issues,
              console := console io
                  @ map (\<lambda>g. Completed_batch_size (length g))
                      (chunk issues OPERATION_BATCH_SIZE)\<rparr>)
        \<and> length (calls (snd (createPagesFrom client databaseId issues io)))
            = length (calls io) + length issues"
  proof
    assume ok: "\<forall>i \<in> set issues. client (Pages_create databaseId (notionPagePropertiesFrom i))"
    then have "\<forall>i \<in> set (concat (chunk issues OPERATION_BATCH_SIZE)).
                 client (Pages_create databaseId (notionPagePropertiesFrom i))"
      unfolding d .
    from createPagesFrom_loop_ok[OF this, of io]
    have r: "createPagesFrom client databaseId issues io =
          (Resolved,
           io\<lparr>calls := calls io
                  @ map (\<lambda>i. Pages_create databaseId (notionPagePropertiesFrom i)) issues,
              console := console io
                  @ map (\<lambda>g. Completed_batch_size (length g))
                      (chunk issues OPERATION_BATCH_SIZE)\<rparr>)"
      unfolding createPagesFrom_def d .
    have "length (calls (snd (createPagesFrom client databaseId issues io)))
            = length (calls io) + length issues"
      unfolding r by simp
    with r show "createPagesFrom client databaseId issues io =
          (Resolved,
           io\<lparr>calls := calls io
                  @ map (\<lambda>i. Pages_create databaseId (notionPagePropertiesFrom i)) issues,
              console := console io
                  @ map (\<lambda>g. Completed_batch_size (length g))
                      (chunk issues OPERATION_BATCH_SIZE)\<rparr>)
        \<and> length (calls (snd (createPagesFrom client databaseId issues io)))
            = length (calls io) + length issues"
      by (rule conjI)
  qed
  show ?thesis
    by (intro conjI) (rule a b c d e)+
qed

lemma length_twelve_issues: "length twelve_issues = 12"
  by (simp add: twelve_issues_def)

lemma chunk_twelve_sizes:
  assumes "length xs = 12"
  shows "map length (chunk xs 10) = [10, 2]"
proof -
  have 1: "xs \<noteq> []" using assms by auto
  have 2: "drop 10 xs \<noteq> []" using assms by auto
  have 3: "drop 10 (drop 10 xs) = []" using assms by simp
  have p: "0 < (10::nat)" by simp
  show ?thesis
    by (simp add: chunk_step[OF p 1] chunk_step[OF p 2] 3 chunk_Nil assms)
qed

theorem batch_executor_grouping_witness:
  "length (chunk twelve_issues OPERATION_BATCH_SIZE) = 2
   \<and> concat (chunk twelve_issues OPERATION_BATCH_SIZE) = twelve_issues
   \<and> fst (createPagesFrom client_ok ''db'' twelve_issues io_start) = Resolved
   \<and> calls (snd (createPagesFrom client_ok ''db'' twelve_issues io_start))
       = map (\<lambda>i. Pages_create ''db'' (notionPagePropertiesFrom i)) twelve_issues
   \<and> length (calls (snd (createPagesFrom client_ok ''db'' twelve_issues io_start))) = 12
   \<and> console (snd (createPagesFrom client_ok ''db'' twelve_issues io_start))
       = [Completed_batch_size 10, Completed_batch_size 2]"
proof -
  note T = batch_executor_grouping[of twelve_issues client_ok "''db''" io_start]
  have h: "\<forall>i \<in> set twelve_issues. client_ok (Pages_create ''db'' (notionPagePropertiesFrom i))"
    by (simp add: client_ok_def)
  have r1: "length (chunk twelve_issues OPERATION_BATCH_SIZE) = 2"
    using T[THEN conjunct1] by (simp add: length_twelve_issues)
  have r2: "concat (chunk twelve_issues OPERATION_BATCH_SIZE) = twelve_issues"
    by (rule T[THEN conjunct2, THEN conjunct2, THEN conjunct2, THEN conjunct1])
  note E = T[THEN conjunct2, THEN conjunct2, THEN conjunct2, THEN conjunct2, THEN mp, OF h]
  have s: "map (\<lambda>g. Completed_batch_size (length g)) (chunk twelve_issues OPERATION_BATCH_SIZE)
             = [Completed_batch_size 10, Completed_batch_size 2]"
    using chunk_twelve_sizes[OF length_twelve_issues, THEN arg_cong, of "map Completed_batch_size"]
    by (simp add: OPERATION_BATCH_SIZE_def o_def)
  have r3: "fst (createPagesFrom client_ok ''db'' twelve_issues io_start) = Resolved"
    unfolding E[THEN conjunct1] by simp
  have r4: "calls (snd (createPagesFrom client_ok ''db'' twelve_issues io_start))
       = map (\<lambda>i. Pages_create ''db'' (notionPagePropertiesFrom i)) twelve_issues"
    unfolding E[THEN conjunct1] by (simp add: io_start_def)
  have r5: "length (calls (snd (createPagesFrom client_ok ''db'' twelve_issues io_start))) = 12"
    unfolding r4 by (simp add: length_twelve_issues)
  have r6: "console (snd (createPagesFrom client_ok ''db'' twelve_issues io_start))
       = [Completed_batch_size 10, Completed_batch_size 2]"
    unfolding E[THEN conjunct1] s by (simp add: io_start_def)
  show ?thesis
    by (intro conjI) (rule r1 r2 r3 r4 r5 r6)+
qed

section \<open>Startup checks: facts and claims\<close>

lemma first_failing_check:
  fixes e1 e2 e3 e4 e5 :: error
  defines "r a b c d e \<equiv>
     (if \<not> a then Inl e1 else if \<not> b then Inl e2 else if \<not> c then Inl e3
      else if \<not> d then Inl e4 else if \<not> e then Inl e5 else (Inr () :: error + unit))"
  shows "(\<exists>x. r a b c d e = Inl x) = (\<not> a \<or> \<not> b \<or> \<not> c \<or> \<not> d \<or> \<not> e)"
    and "r a b c d e = Inl x \<Longrightarrow>
           x = e1 \<and> \<not> a \<or> x = e2 \<and> \<not> b \<or> x = e3 \<and> \<not> c \<or> x = e4 \<and> \<not> d \<or> x = e5 \<and> \<not> e"
    and "a \<Longrightarrow> b \<Longrightarrow> c \<Longrightarrow> d \<Longrightarrow> e \<Longrightarrow> r a b c d e = Inr ()"
    and "\<not> a \<longrightarrow> r a b c d e = Inl e1"
    and "a \<and> \<not> b \<longrightarrow> r a b c d e = Inl e2"
    and "a \<and> b \<and> \<not> c \<longrightarrow> r a b c d e = Inl e3"
    and "a \<and> b \<and> c \<and> \<not> d \<longrightarrow> r a b c d e = Inl e4"
    and "a \<and> b \<and> c \<and> d \<and> \<not> e \<longrightarrow> r a b c d e = Inl e5"
  unfolding r_def by (auto split: if_splits)

lemma startup_all_present:
  "truthy_opt (env ''NOTION_DATABASE_ID'') \<Longrightarrow> truthy_opt (env ''GITHUB_REPO_OWNER'')
   \<Longrightarrow> truthy_opt (env ''GITHUB_REPO_NAME'') \<Longrightarrow> truthy_opt (env ''GITHUB_KEY'')
   \<Longrightarrow> truthy_opt (env ''NOTION_KEY'') \<Longrightarrow> startup_checks env = Inr ()"
  unfolding startup_checks_def by (rule first_failing_check(3))

lemma startup_raises_iff:
  "(\<exists>e. startup_checks env = Inl e) =
     (\<not> truthy_opt (env ''NOTION_DATABASE_ID'') \<or> \<not> truthy_opt (env ''GITHUB_REPO_OWNER'')
      \<or> \<not> truthy_opt (env ''GITHUB_REPO_NAME'') \<or> \<not> truthy_opt (env ''GITHUB_KEY'')
      \<or> \<not> truthy_opt (env ''NOTION_KEY''))"
  unfolding startup_checks_def by (rule first_failing_check(1))

lemma startup_message:
  "startup_checks env = Inl (Error msg) \<Longrightarrow>
     (Error msg = Error ''Notion database must be defined'' \<and> \<not> truthy_opt (env ''NOTION_DATABASE_ID''))
   \<or> (Error msg = Error ''Github repo owner must be defined'' \<and> \<not> truthy_opt (env ''GITHUB_REPO_OWNER''))
   \<or> (Error msg = Error ''Github repo name must be defined'' \<and> \<not> truthy_opt (env ''GITHUB_REPO_NAME''))
   \<or> (Error msg = Error ''Github api key must be defined'' \<and> \<not> truthy_opt (env ''GITHUB_KEY''))
   \<or> (Error msg = Error ''Notion api key must be defined'' \<and> \<not> truthy_opt (env ''NOTION_KEY''))"
  unfolding startup_checks_def by (rule first_failing_check(2))

text \<open>
  C8. The startup checks raise if and only if one of the five environment values is
  missing or the empty string, and succeed when all five are non-empty strings. The
  message of the raised error names a value that is missing or empty: the first one in
  the order database id, repo owner, repo name, GitHub key, Notion key.
\<close>

theorem startup_checks_raise_iff_missing:
  "(\<exists>e. startup_checks env = Inl e) =
     (\<exists>k \<in> {''NOTION_DATABASE_ID'', ''GITHUB_REPO_OWNER'', ''GITHUB_REPO_NAME'',
              ''GITHUB_KEY'', ''NOTION_KEY''}. env k = None \<or> env k = Some [])
   \<and> ((\<forall>k \<in> {''NOTION_DATABASE_ID'', ''GITHUB_REPO_OWNER'', ''GITHUB_REPO_NAME'',
               ''GITHUB_KEY'', ''NOTION_KEY''}. \<exists>v. env k = Some v \<and> v \<noteq> [])
        \<longrightarrow> startup_checks env = Inr ())
   \<and> (\<forall>msg. startup_checks env = Inl (Error msg) \<longrightarrow>
         msg = ''Notion database must be defined''
           \<and> (env ''NOTION_DATABASE_ID'' = None \<or> env ''NOTION_DATABASE_ID'' = Some [])
       \<or> msg = ''Github repo owner must be defined''
           \<and> (env ''GITHUB_REPO_OWNER'' = None \<or> env ''GITHUB_REPO_OWNER'' = Some [])
       \<or> msg = ''Github repo name must be defined''
           \<and> (env ''GITHUB_REPO_NAME'' = None \<or> env ''GITHUB_REPO_NAME'' = Some [])
       \<or> msg = ''Github api key must be defined''
           \<and> (env ''GITHUB_KEY'' = None \<or> env ''GITHUB_KEY'' = Some [])
       \<or> msg = ''Notion api key must be defined''
           \<and> (env ''NOTION_KEY'' = None \<or> env ''NOTION_KEY'' = Some []))
   \<and> (env ''NOTION_DATABASE_ID'' = None \<or> env ''NOTION_DATABASE_ID'' = Some []
        \<longrightarrow> startup_checks env = Inl (Error ''Notion database must be defined''))
   \<and> (truthy_opt (env ''NOTION_DATABASE_ID'')
        \<and> (env ''GITHUB_REPO_OWNER'' = None \<or> env ''GITHUB_REPO_OWNER'' = Some [])
        \<longrightarrow> startup_checks env = Inl (Error ''Github repo owner must be defined''))
   \<and> (truthy_opt (env ''NOTION_DATABASE_ID'') \<and> truthy_opt (env ''GITHUB_REPO_OWNER'')
        \<and> (env ''GITHUB_REPO_NAME'' = None \<or> env ''GITHUB_REPO_NAME'' = Some [])
        \<longrightarrow> startup_checks env = Inl (Error ''Github repo name must be defined''))
   \<and> (truthy_opt (env ''NOTION_DATABASE_ID'') \<and> truthy_opt (env ''GITHUB_REPO_OWNER'')
        \<and> truthy_opt (env ''GITHUB_REPO_NAME'')
        \<and> (env ''GITHUB_KEY'' = None \<or> env ''GITHUB_KEY'' = Some [])
        \<longrightarrow> startup_checks env = Inl (Error ''Github api key must be defined''))
   \<and> (truthy_opt (env ''NOTION_DATABASE_ID'') \<and> truthy_opt (env ''GITHUB_REPO_OWNER'')
        \<and> truthy_opt (env ''GITHUB_REPO_NAME'') \<and> truthy_opt (env ''GITHUB_KEY'')
        \<and> (env ''NOTION_KEY'' = None \<or> env ''NOTION_KEY'' = Some [])
        \<longrightarrow> startup_checks env = Inl (Error ''Notion api key must be defined''))"
proof -
  have a: "(\<exists>e. startup_checks env = Inl e) =
     (\<exists>k \<in> {''NOTION_DATABASE_ID'', ''GITHUB_REPO_OWNER'', ''GITHUB_REPO_NAME'',
              ''GITHUB_KEY'', ''NOTION_KEY''}. env k = None \<or> env k = Some [])"
    unfolding startup_raises_iff not_truthy_opt_iff bex_simps by (simp only: disj_assoc simp_thms)
  have b: "(\<forall>k \<in> {''NOTION_DATABASE_ID'', ''GITHUB_REPO_OWNER'', ''GITHUB_REPO_NAME'',
               ''GITHUB_KEY'', ''NOTION_KEY''}. \<exists>v. env k = Some v \<and> v \<noteq> [])
        \<longrightarrow> startup_checks env = Inr ()"
    unfolding ball_simps truthy_opt_iff[symmetric]
    by (intro impI, elim conjE) (rule startup_all_present; assumption)
  have c: "\<forall>msg. startup_checks env = Inl (Error msg) \<longrightarrow>
         msg = ''Notion database must be defined''
           \<and> (env ''NOTION_DATABASE_ID'' = None \<or> env ''NOTION_DATABASE_ID'' = Some [])
       \<or> msg = ''Github repo owner must be defined''
           \<and> (env ''GITHUB_REPO_OWNER'' = None \<or> env ''GITHUB_REPO_OWNER'' = Some [])
       \<or> msg = ''Github repo name must be defined''
           \<and> (env ''GITHUB_REPO_NAME'' = None \<or> env ''GITHUB_REPO_NAME'' = Some [])
       \<or> msg = ''Github api key must be defined''
           \<and> (env ''GITHUB_KEY'' = None \<or> env ''GITHUB_KEY'' = Some [])
       \<or> msg = ''Notion api key must be defined''
           \<and> (env ''NOTION_KEY'' = None \<or> env ''NOTION_KEY'' = Some [])"
    using startup_message[of env] unfolding not_truthy_opt_iff error.inject by (intro allI impI)
  have d1: "env ''NOTION_DATABASE_ID'' = None \<or> env ''NOTION_DATABASE_ID'' = Some []
        \<longrightarrow> startup_checks env = Inl (Error ''Notion database must be defined'')"
    unfolding not_truthy_opt_iff[symmetric] startup_checks_def by (rule first_failing_check(4))
  have d2: "truthy_opt (env ''NOTION_DATABASE_ID'')
        \<and> (env ''GITHUB_REPO_OWNER'' = None \<or> env ''GITHUB_REPO_OWNER'' = Some [])
        \<longrightarrow> startup_checks env = Inl (Error ''Github repo owner must be defined'')"
    unfolding not_truthy_opt_iff[symmetric] startup_checks_def by (rule first_failing_check(5))
  have d3: "truthy_opt (env ''NOTION_DATABASE_ID'') \<and> truthy_opt (env ''GITHUB_REPO_OWNER'')
        \<and> (env ''GITHUB_REPO_NAME'' = None \<or> env ''GITHUB_REPO_NAME'' = Some [])
        \<longrightarrow> startup_checks env = Inl (Error ''Github repo name must be defined'')"
    unfolding not_truthy_opt_iff[symmetric] startup_checks_def by (rule first_failing_check(6))
  have d4: "truthy_opt (env ''NOTION_DATABASE_ID'') \<and> truthy_opt (env ''GITHUB_REPO_OWNER'')
        \<and> truthy_opt (env ''GITHUB_REPO_NAME'')
        \<and> (env ''GITHUB_KEY'' = None \<or> env ''GITHUB_KEY'' = Some [])
        \<longrightarrow> startup_checks env = Inl (Error ''Github api key must be defined'')"
    unfolding not_truthy_opt_iff[symmetric] startup_checks_def by (rule first_failing_check(7))
  have d5: "truthy_opt (env ''NOTION_DATABASE_ID'') \<and> truthy_opt (env ''GITHUB_REPO_OWNER'')
        \<and> truthy_opt (env ''GITHUB_REPO_NAME'') \<and> truthy_opt (env ''GITHUB_KEY'')
        \<and> (env ''NOTION_KEY'' = None \<or> env ''NOTION_KEY'' = Some [])
        \<longrightarrow> startup_checks env = Inl (Error ''Notion api key must be defined'')"
    unfolding not_truthy_opt_iff[symmetric] startup_checks_def by (rule first_failing_check(8))
  show ?thesis
    by (intro conjI) (rule a b c d1 d2 d3 d4 d5)+
qed

lemma env_complete_lookups:
  "env_complete ''NOTION_DATABASE_ID'' = Some ''db''" "env_complete ''GITHUB_REPO_OWNER'' = Some ''o''"
  "env_complete ''GITHUB_REPO_NAME'' = Some ''r''" "env_complete ''GITHUB_KEY'' = Some ''ghp''"
  "env_complete ''NOTION_KEY'' = Some ''secret''"
  by (simp_all add: env_complete_def)

lemma env_no_github_key_lookups:
  "env_no_github_key ''NOTION_DATABASE_ID'' = Some ''db''" "env_no_github_key ''GITHUB_REPO_OWNER'' = Some ''o''"
  "env_no_github_key ''GITHUB_REPO_NAME'' = Some ''r''" "env_no_github_key ''GITHUB_KEY'' = None"
  "env_no_github_key ''NOTION_KEY'' = Some ''secret''"
  by (simp_all add: env_no_github_key_def)

lemma env_empty_database_id_lookups:
  "env_empty_database_id ''NOTION_DATABASE_ID'' = Some []"
  by (simp_all add: env_empty_database_id_def)

theorem startup_checks_raise_iff_missing_witness:
  "startup_checks env_complete = Inr ()
   \<and> startup_checks env_no_github_key = Inl (Error ''Github api key must be defined'')
   \<and> startup_checks env_empty_database_id = Inl (Error ''Notion database must be defined'')"
proof -
  have h1: "\<forall>k \<in> {''NOTION_DATABASE_ID'', ''GITHUB_REPO_OWNER'', ''GITHUB_REPO_NAME'',
               ''GITHUB_KEY'', ''NOTION_KEY''}. \<exists>v. env_complete k = Some v \<and> v \<noteq> []"
    by (simp add: env_complete_lookups)
  have r1: "startup_checks env_complete = Inr ()"
    using startup_checks_raise_iff_missing[of env_complete, THEN conjunct2, THEN conjunct1] h1
    by (rule mp)
  have h2: "truthy_opt (env_no_github_key ''NOTION_DATABASE_ID'')
        \<and> truthy_opt (env_no_github_key ''GITHUB_REPO_OWNER'')
        \<and> truthy_opt (env_no_github_key ''GITHUB_REPO_NAME'')
        \<and> (env_no_github_key ''GITHUB_KEY'' = None \<or> env_no_github_key ''GITHUB_KEY'' = Some [])"
    by (simp add: env_no_github_key_lookups truthy_string_def)
  have r2: "startup_checks env_no_github_key = Inl (Error ''Github api key must be defined'')"
    using startup_checks_raise_iff_missing[of env_no_github_key, THEN conjunct2, THEN conjunct2,
            THEN conjunct2, THEN conjunct2, THEN conjunct2, THEN conjunct2, THEN conjunct1] h2
    by (rule mp)
  have h3: "env_empty_database_id ''NOTION_DATABASE_ID'' = None
            \<or> env_empty_database_id ''NOTION_DATABASE_ID'' = Some []"
    by (simp add: env_empty_database_id_lookups)
  have r3: "startup_checks env_empty_database_id = Inl (Error ''Notion database must be defined'')"
    using startup_checks_raise_iff_missing[of env_empty_database_id, THEN conjunct2, THEN conjunct2,
            THEN conjunct2, THEN conjunct1] h3
    by (rule mp)
  show ?thesis
    by (intro conjI) (rule r1 r2 r3)+
qed

end
